theory Spec2Isabelle
  imports Main "HOL-Library.Word"
begin

unbundle bit_operations_syntax

section \<open>Values of the Python program\<close>

text \<open>
  A Python \<open>bytes\<close> object is a list of 8-bit words. A Python \<open>str\<close> is the list of its
  code points, natural numbers (Python's are below \<open>0x110000\<close>); a string literal of
  the source is written \<open>lit ''...''\<close>. A Python \<open>int\<close> is the unbounded \<open>int\<close>.
\<close>

type_synonym byte = "8 word"
type_synonym bytes = "8 word list"
type_synonym u32 = "32 word"
type_synonym str = "nat list"

definition lit :: "string \<Rightarrow> str" where
  "lit s = map of_char s"

text \<open>A bytes literal such as \<open>b"abc"\<close>: one byte per ASCII character.\<close>

definition ascii :: "string \<Rightarrow> bytes" where
  "ascii s = map of_char s"

text \<open>
  The exceptions that reach the caller: \<open>UnicodeEncodeError\<close>, which carries the string
  that could not be encoded; \<open>ValueError\<close>; and an exception raised by \<open>requests\<close> (a
  transport failure).
\<close>

datatype error = UnicodeEncodeError str | ValueError | RequestException string

text \<open>
  \<open>str.encode()\<close>, whose default codec is UTF-8 with strict error handling: one to four
  bytes for a code point, and \<open>UnicodeEncodeError\<close> when the string holds a surrogate
  (U+D800 to U+DFFF).
\<close>

definition is_surrogate :: "nat \<Rightarrow> bool" where
  "is_surrogate c = (0xD800 \<le> c \<and> c \<le> 0xDFFF)"

definition encodable :: "str \<Rightarrow> bool" where
  "encodable s = (\<not> list_ex is_surrogate s)"

definition encode_char :: "nat \<Rightarrow> bytes" where
  "encode_char c =
     (if c < 0x80 then [word_of_nat c]
      else if c < 0x800 then
        [0xC0 OR word_of_nat (c div 64), 0x80 OR word_of_nat (c mod 64)]
      else if c < 0x10000 then
        [0xE0 OR word_of_nat (c div 4096), 0x80 OR word_of_nat (c div 64 mod 64),
         0x80 OR word_of_nat (c mod 64)]
      else
        [0xF0 OR word_of_nat (c div 262144), 0x80 OR word_of_nat (c div 4096 mod 64),
         0x80 OR word_of_nat (c div 64 mod 64), 0x80 OR word_of_nat (c mod 64)])"

definition utf8 :: "str \<Rightarrow> bytes" where
  "utf8 s = concat (map encode_char s)"

definition encode :: "str \<Rightarrow> error + bytes" where
  "encode s = (if encodable s then Inr (utf8 s) else Inl (UnicodeEncodeError s))"

text \<open>\<open>sep.join(parts)\<close> on strings.\<close>

fun join :: "str \<Rightarrow> str list \<Rightarrow> str" where
  "join sep [] = []"
| "join sep [x] = x"
| "join sep (x # y # ys) = x @ sep @ join sep (y # ys)"

text \<open>
  \<open>str(n)\<close> for an integer: the decimal digits, after a minus sign when \<open>n\<close> is negative.
  The interpreter refuses the conversion with \<open>ValueError\<close> when there are more digits
  than \<open>sys.get_int_max_str_digits()\<close>, which is 4300 unless changed and 0 when the
  interpreter sets no limit (as CPython did before 3.11).
\<close>

fun decimal :: "nat \<Rightarrow> str" where
  "decimal n = (if n < 10 then [48 + n] else decimal (n div 10) @ [48 + n mod 10])"

declare decimal.simps [simp del]

definition int_text :: "int \<Rightarrow> str" where
  "int_text i = (if i < 0 then lit ''-'' else []) @ decimal (nat \<bar>i\<bar>)"

definition digits_refused :: "nat \<Rightarrow> int \<Rightarrow> bool" where
  "digits_refused max_digits i =
     (0 < max_digits \<and> max_digits < length (decimal (nat \<bar>i\<bar>)))"

definition str_int :: "nat \<Rightarrow> int \<Rightarrow> error + str" where
  "str_int max_digits i =
     (if digits_refused max_digits i then Inl ValueError else Inr (int_text i))"

text \<open>
  An argument annotated \<open>int\<close> is an integer or, \<open>bool\<close> being a subclass of \<open>int\<close>, a
  boolean. \<open>'{}'.format(x)\<close> inserts \<open>str(x)\<close>: the decimal text, or \<open>True\<close> or \<open>False\<close>.
\<close>

datatype pyint = PyInt int | PyBool bool

fun format_int :: "nat \<Rightarrow> pyint \<Rightarrow> error + str" where
  "format_int max_digits (PyInt i) = str_int max_digits i"
| "format_int max_digits (PyBool b) = Inr (if b then lit ''True'' else lit ''False'')"

section \<open>hashlib.sha1\<close>

text \<open>
  SHA-1 as \<open>hashlib.sha1(m).digest()\<close> computes it (FIPS 180-4): the message is padded
  to a multiple of 64 bytes, and each block updates five 32-bit words through 80 rounds.
\<close>

definition rotl :: "nat \<Rightarrow> u32 \<Rightarrow> u32" where
  "rotl n x = push_bit n x OR drop_bit (32 - n) x"

definition be64 :: "nat \<Rightarrow> bytes" where
  "be64 n = map (\<lambda>i. word_of_nat (n div 256 ^ i)) [7, 6, 5, 4, 3, 2, 1, 0]"

definition be32 :: "u32 \<Rightarrow> bytes" where
  "be32 x = map (\<lambda>i. ucast (drop_bit (8 * i) x)) [3, 2, 1, 0]"

definition word_of_be :: "bytes \<Rightarrow> u32" where
  "word_of_be bs = fold (\<lambda>b acc. push_bit 8 acc OR ucast b) bs 0"

definition sha1_pad :: "bytes \<Rightarrow> bytes" where
  "sha1_pad m =
     m @ [0x80] @ replicate ((119 - length m mod 64) mod 64) 0 @ be64 (8 * length m)"

function chunks :: "nat \<Rightarrow> 'a list \<Rightarrow> 'a list list" where
  "chunks n xs = (if n = 0 \<or> xs = [] then [] else take n xs # chunks n (drop n xs))"
  by pat_completeness auto
termination
  by (relation "measure (\<lambda>(n, xs). length xs)") auto

declare chunks.simps [simp del]

text \<open>The message schedule, newest word first: 64 words are added to the 16 of a block.\<close>

primrec schedule :: "nat \<Rightarrow> u32 list \<Rightarrow> u32 list" where
  "schedule 0 ws = ws"
| "schedule (Suc n) ws =
     schedule n (rotl 1 (ws ! 2 XOR ws ! 7 XOR ws ! 13 XOR ws ! 15) # ws)"

definition sha1_f :: "nat \<Rightarrow> u32 \<Rightarrow> u32 \<Rightarrow> u32 \<Rightarrow> u32" where
  "sha1_f t b c d =
     (if t < 20 then (b AND c) OR (NOT b AND d)
      else if t < 40 then b XOR c XOR d
      else if t < 60 then (b AND c) OR (b AND d) OR (c AND d)
      else b XOR c XOR d)"

definition sha1_k :: "nat \<Rightarrow> u32" where
  "sha1_k t =
     (if t < 20 then 0x5A827999 else if t < 40 then 0x6ED9EBA1
      else if t < 60 then 0x8F1BBCDC else 0xCA62C1D6)"

type_synonym sha1_state = "u32 \<times> u32 \<times> u32 \<times> u32 \<times> u32"

fun rounds :: "nat \<Rightarrow> u32 list \<Rightarrow> sha1_state \<Rightarrow> sha1_state" where
  "rounds t [] s = s"
| "rounds t (w # ws) (a, b, c, d, e) =
     rounds (t + 1) ws
       (rotl 5 a + sha1_f t b c d + e + sha1_k t + w, a, rotl 30 b, c, d)"

fun compress :: "bytes \<Rightarrow> sha1_state \<Rightarrow> sha1_state" where
  "compress block (h0, h1, h2, h3, h4) =
     (case rounds 0 (rev (schedule 64 (rev (map word_of_be (chunks 4 block)))))
             (h0, h1, h2, h3, h4) of
        (a, b, c, d, e) \<Rightarrow> (h0 + a, h1 + b, h2 + c, h3 + d, h4 + e))"

definition sha1 :: "bytes \<Rightarrow> bytes" where
  "sha1 m =
     (case fold compress (chunks 64 (sha1_pad m))
             (0x67452301, 0xEFCDAB89, 0x98BADCFE, 0x10325476, 0xC3D2E1F0) of
        (h0, h1, h2, h3, h4) \<Rightarrow> be32 h0 @ be32 h1 @ be32 h2 @ be32 h3 @ be32 h4)"

section \<open>hmac.new(key, msg, digestmod).digest()\<close>

text \<open>
  HMAC (RFC 2104) over a hash with the given block size: a key longer than a block is
  hashed first, then padded with zero bytes to a block; the inner hash covers the key
  XOR 0x36 followed by the message, the outer hash the key XOR 0x5C followed by the
  inner digest.
\<close>

definition hmac :: "(bytes \<Rightarrow> bytes) \<Rightarrow> nat \<Rightarrow> bytes \<Rightarrow> bytes \<Rightarrow> bytes" where
  "hmac digestmod block_size key msg =
     (let key = (if length key > block_size then digestmod key else key);
          key = key @ replicate (block_size - length key) 0;
          inner = digestmod (map (\<lambda>b. b XOR 0x36) key @ msg)
      in digestmod (map (\<lambda>b. b XOR 0x5C) key @ inner))"

definition hmac_sha1 :: "bytes \<Rightarrow> bytes \<Rightarrow> bytes" where
  "hmac_sha1 key msg = hmac sha1 64 key msg"

section \<open>base64.b64encode\<close>

definition b64_alphabet :: string where
  "b64_alphabet = ''ABCDEFGHIJKLMNOPQRSTUVWXYZabcdefghijklmnopqrstuvwxyz0123456789+/''"

definition b64_char :: "nat \<Rightarrow> byte" where
  "b64_char n = of_char (b64_alphabet ! n)"

definition b64_pad :: byte where
  "b64_pad = of_char CHR ''=''"

text \<open>
  Three bytes give four characters of the standard alphabet; a last group of one or two
  bytes is completed with \<open>=\<close> signs (RFC 4648).
\<close>

fun b64encode :: "bytes \<Rightarrow> bytes" where
  "b64encode [] = []"
| "b64encode [a] =
     [b64_char (unat a div 4), b64_char (unat a mod 4 * 16), b64_pad, b64_pad]"
| "b64encode [a, b] =
     [b64_char (unat a div 4), b64_char (unat a mod 4 * 16 + unat b div 16),
      b64_char (unat b mod 16 * 4), b64_pad]"
| "b64encode (a # b # c # rest) =
     [b64_char (unat a div 4), b64_char (unat a mod 4 * 16 + unat b div 16),
      b64_char (unat b mod 16 * 4 + unat c div 64), b64_char (unat c mod 64)]
     @ b64encode rest"

section \<open>json.dumps\<close>

text \<open>
  The values \<open>json.dumps\<close> serialises here: \<open>None\<close>, booleans, integers, strings, lists
  and dicts with string keys, a dict as the list of its items in insertion order.
\<close>

datatype json =
  JNull | JBool bool | JInt int | JStr str | JList "json list" | JDict "(str \<times> json) list"

definition hex_digit :: "nat \<Rightarrow> nat" where
  "hex_digit d = of_char (''0123456789abcdef'' ! d)"

text \<open>\<open>'\\u{0:04x}'.format(n)\<close> for \<open>n\<close> below \<open>0x10000\<close>.\<close>

definition u_escape :: "nat \<Rightarrow> str" where
  "u_escape n =
     lit [CHR 0x5C, CHR ''u'']
     @ [hex_digit (n div 4096 mod 16), hex_digit (n div 256 mod 16),
        hex_digit (n div 16 mod 16), hex_digit (n mod 16)]"

text \<open>
  With \<open>ensure_ascii\<close>, the default: the quote, the backslash and five control
  characters have short escapes; every other character outside space to tilde is written
  \<open>\uXXXX\<close>, as a surrogate pair when it is above U+FFFF.
\<close>

definition json_escape_char :: "nat \<Rightarrow> str" where
  "json_escape_char c =
     (if c = 0x22 then lit [CHR 0x5C, CHR 0x22]
      else if c = 0x5C then lit [CHR 0x5C, CHR 0x5C]
      else if c = 0x0A then lit [CHR 0x5C, CHR ''n'']
      else if c = 0x0D then lit [CHR 0x5C, CHR ''r'']
      else if c = 0x09 then lit [CHR 0x5C, CHR ''t'']
      else if c = 0x08 then lit [CHR 0x5C, CHR ''b'']
      else if c = 0x0C then lit [CHR 0x5C, CHR ''f'']
      else if 32 \<le> c \<and> c \<le> 126 then [c]
      else if c < 0x10000 then u_escape c
      else u_escape (0xD800 + (c - 0x10000) div 1024 mod 1024)
           @ u_escape (0xDC00 + (c - 0x10000) mod 1024))"

definition json_string :: "str \<Rightarrow> str" where
  "json_string s = [0x22] @ concat (map json_escape_char s) @ [0x22]"

text \<open>
  The text of a value, the default separators being a comma and a colon, each followed
  by a space.
\<close>

fun json_text :: "json \<Rightarrow> str" where
  "json_text JNull = lit ''null''"
| "json_text (JBool b) = (if b then lit ''true'' else lit ''false'')"
| "json_text (JInt i) = int_text i"
| "json_text (JStr s) = json_string s"
| "json_text (JList xs) = lit ''['' @ join (lit '', '') (map json_text xs) @ lit '']''"
| "json_text (JDict kvs) =
     lit ''{''
     @ join (lit '', '') (map (\<lambda>(k, v). json_string k @ lit '': '' @ json_text v) kvs)
     @ lit ''}''"

text \<open>
  An integer is written by \<open>int.__repr__\<close>, under the same limit on its digits as
  \<open>str\<close>: the integers of a value all fit, or \<open>json.dumps\<close> raises \<open>ValueError\<close>.
\<close>

fun json_fits :: "nat \<Rightarrow> json \<Rightarrow> bool" where
  "json_fits max_digits JNull = True"
| "json_fits max_digits (JBool b) = True"
| "json_fits max_digits (JInt i) = (\<not> digits_refused max_digits i)"
| "json_fits max_digits (JStr s) = True"
| "json_fits max_digits (JList xs) = list_all (json_fits max_digits) xs"
| "json_fits max_digits (JDict kvs) = list_all (\<lambda>(k, v). json_fits max_digits v) kvs"

definition json_dumps :: "nat \<Rightarrow> json \<Rightarrow> error + str" where
  "json_dumps max_digits j =
     (if json_fits max_digits j then Inr (json_text j) else Inl ValueError)"

section \<open>requests and time\<close>

datatype verb = GET | POST | PUT | DELETE

text \<open>
  A value of the form body: a string or an integer. A header value: a string or bytes.
  The keys of both dicts are literals of the source.
\<close>

datatype fval = FStr str | FInt int

datatype hval = HStr str | HBytes bytes

type_synonym form = "(string \<times> fval) list"
type_synonym header_dict = "(string \<times> hval) list"

record request =
  rq_verb :: verb
  rq_url :: str
  rq_data :: "form option"
  rq_headers :: "header_dict option"
  rq_verify :: bool

record response =
  status_code :: int
  content :: bytes
  encoding :: "str option"

text \<open>
  \<open>response.text\<close> is the content decoded with the response's encoding. The decoded
  string is kept symbolic: the codec and the bytes it was applied to.
\<close>

datatype decoded = Decode "str option" bytes

definition text_of :: "response \<Rightarrow> decoded" where
  "text_of r = Decode (encoding r) (content r)"

text \<open>
  The world outside the program: the clock, where \<open>clock w k\<close> is the text that
  \<open>str(time.time())\<close> returns at the \<open>k\<close>-th reading (the decimal text of a float, so
  a string of ASCII characters); the interpreter's limit on the digits of an integer
  turned into text; the transport, which answers a request given the requests handed to
  \<open>requests\<close> before it; and the requests handed to \<open>requests\<close> so far.
\<close>

record world =
  clock :: "nat \<Rightarrow> string"
  reads :: nat
  int_max_str_digits :: nat
  transport :: "request list \<Rightarrow> request \<Rightarrow> error + response"
  sent :: "request list"

text \<open>
  What a call that may raise returns from a world: the exception or the value, and the
  world after the call.
\<close>

type_synonym 'a io = "world \<Rightarrow> (error + 'a) \<times> world"

text \<open>\<open>str(time.time())\<close>: the next reading of the clock.\<close>

definition time_str :: "world \<Rightarrow> str \<times> world" where
  "time_str w = (lit (clock w (reads w)), w\<lparr>reads := Suc (reads w)\<rparr>)"

text \<open>\<open>requests.request(method, url, data=..., headers=..., verify=...)\<close>: one HTTP call.\<close>

definition requests_request ::
  "verb \<Rightarrow> str \<Rightarrow> form option \<Rightarrow> header_dict option \<Rightarrow> bool \<Rightarrow> response io" where
  "requests_request m url dat hdrs vfy w =
     (let rq = \<lparr>rq_verb = m, rq_url = url, rq_data = dat, rq_headers = hdrs,
                rq_verify = vfy\<rparr>
      in (transport w (sent w) rq, w\<lparr>sent := sent w @ [rq]\<rparr>))"

definition requests_get ::
  "str \<Rightarrow> form option \<Rightarrow> header_dict option \<Rightarrow> bool \<Rightarrow> response io" where
  "requests_get = requests_request GET"

definition requests_post ::
  "str \<Rightarrow> form option \<Rightarrow> header_dict option \<Rightarrow> bool \<Rightarrow> response io" where
  "requests_post = requests_request POST"

definition requests_put ::
  "str \<Rightarrow> form option \<Rightarrow> header_dict option \<Rightarrow> bool \<Rightarrow> response io" where
  "requests_put = requests_request PUT"

definition requests_delete ::
  "str \<Rightarrow> form option \<Rightarrow> header_dict option \<Rightarrow> bool \<Rightarrow> response io" where
  "requests_delete = requests_request DELETE"

text \<open>An argument left out of a call takes the default of the signature.\<close>

definition default :: "'a \<Rightarrow> 'a option \<Rightarrow> 'a" where
  "default d x = (case x of None \<Rightarrow> d | Some v \<Rightarrow> v)"

section \<open>ACRCloudConsole\<close>

record console =
  access_key :: str
  access_secret :: bytes
  host :: str
  signature_version :: str

text \<open>The constructor \<open>ACRCloudConsole(account_access_key, account_access_secret)\<close>.\<close>

definition ACRCloudConsole :: "str \<Rightarrow> bytes \<Rightarrow> console" where
  "ACRCloudConsole account_access_key account_access_secret =
     \<lparr>access_key = account_access_key, access_secret = account_access_secret,
      host = lit ''api.acrcloud.com'', signature_version = lit ''1''\<rparr>"

text \<open>The method \<open>_sign\<close>: it raises what \<open>string_to_sign.encode()\<close> raises.\<close>

definition sign :: "console \<Rightarrow> str \<Rightarrow> error + bytes" where
  "sign self string_to_sign =
     (case encode string_to_sign of
        Inl e \<Rightarrow> Inl e
      | Inr message \<Rightarrow> Inr (b64encode (hmac_sha1 (access_secret self) message)))"

text \<open>The method \<open>_headers\<close>: the dict, as the list of its items.\<close>

definition headers :: "console \<Rightarrow> bytes \<Rightarrow> str \<Rightarrow> header_dict" where
  "headers self signature timestamp =
     [(''access-key'', HStr (access_key self)),
      (''signature-version'', HStr (signature_version self)),
      (''signature'', HBytes signature), (''timestamp'', HStr timestamp)]"

text \<open>
  The operations. Each runs in a world and returns what the method returns, or the
  exception it lets through. An optional argument is \<open>None\<close> when the caller leaves it
  out. An operation raises, before it hands anything to \<open>requests\<close>, what \<open>_sign\<close> or
  \<open>json.dumps\<close> raises.
\<close>

definition add_project ::
  "console \<Rightarrow> str \<Rightarrow> str option \<Rightarrow> json list option \<Rightarrow> int option \<Rightarrow> str option \<Rightarrow>
   str option \<Rightarrow> decoded io" where
  "add_project self project_name type_opt buckets audio_type_opt external_id_opt region_opt w =
     (let type' = default (lit ''BM-ACRC'') type_opt;
          audio_type = default 2 audio_type_opt;
          external_id = default [] external_id_opt;
          region = default (lit ''ap-southeast-1'') region_opt;
          buckets =
            (case buckets of
               None \<Rightarrow> [JDict [(lit ''name'', JStr (lit ''ACRCloud Music''))]]
             | Some b \<Rightarrow> b);
          http_method = lit ''POST'';
          uri = lit ''/v1/projects'';
          (timestamp, w) = time_str w;
          string_to_sign =
            join (lit ''\<newline>'')
              [http_method, uri, access_key self, signature_version self, timestamp]
      in (case sign self string_to_sign of
            Inl e \<Rightarrow> (Inl e, w)
          | Inr signature \<Rightarrow>
             (let hdrs = headers self signature timestamp
              in (case json_dumps (int_max_str_digits w) (JList buckets) of
                    Inl e \<Rightarrow> (Inl e, w)
                  | Inr dumped \<Rightarrow>
                    (let dat =
                           [(''name'', FStr project_name), (''region'', FStr region),
                            (''type'', FStr type'), (''buckets'', FStr dumped),
                            (''audio_type'', FInt audio_type),
                            (''external_id'', FStr external_id)];
                         requrl = lit ''https://'' @ host self @ uri;
                         (r, w) = requests_post requrl (Some dat) (Some hdrs) True w
                     in (case r of
                            Inl e \<Rightarrow> Inl e
                          | Inr response \<Rightarrow>
                              Inr (text_of (response\<lparr>encoding := Some (lit ''utf-8'')\<rparr>)),
                        w))))))"

definition update_project ::
  "console \<Rightarrow> str \<Rightarrow> json list option \<Rightarrow> decoded io" where
  "update_project self project_name buckets w =
     (let buckets =
            (case buckets of
               None \<Rightarrow> [JDict [(lit ''name'', JStr (lit ''ACRCloud Music''))]]
             | Some b \<Rightarrow> b);
          http_method = lit ''POST'';
          uri = lit ''/v1/projects/'' @ project_name;
          (timestamp, w) = time_str w;
          string_to_sign =
            join (lit ''\<newline>'')
              [http_method, uri, access_key self, signature_version self, timestamp]
      in (case sign self string_to_sign of
            Inl e \<Rightarrow> (Inl e, w)
          | Inr signature \<Rightarrow>
             (let hdrs = headers self signature timestamp
              in (case json_dumps (int_max_str_digits w) (JList buckets) of
                    Inl e \<Rightarrow> (Inl e, w)
                  | Inr dumped \<Rightarrow>
                    (let dat =
                           [(''buckets'', FStr dumped)];
                         requrl = lit ''https://'' @ host self @ uri;
                         (r, w) = requests_post requrl (Some dat) (Some hdrs) True w
                     in (case r of
                            Inl e \<Rightarrow> Inl e
                          | Inr response \<Rightarrow>
                              Inr (text_of (response\<lparr>encoding := Some (lit ''utf-8'')\<rparr>)),
                        w))))))"

definition delete_project ::
  "console \<Rightarrow> str \<Rightarrow> decoded io" where
  "delete_project self project_name w =
     (let http_method = lit ''DELETE'';
          uri = lit ''/v1/projects/'' @ project_name;
          (timestamp, w) = time_str w;
          string_to_sign =
            join (lit ''\<newline>'')
              [http_method, uri, access_key self, signature_version self, timestamp]
      in (case sign self string_to_sign of
            Inl e \<Rightarrow> (Inl e, w)
          | Inr signature \<Rightarrow>
             (let hdrs = headers self signature timestamp;
                  dat =
                [(''name'', FStr project_name)];
                  requrl = lit ''https://'' @ host self @ uri;
                  (r, w) = requests_delete requrl (Some dat) (Some hdrs) True w
              in (case r of
                     Inl e \<Rightarrow> Inl e
                   | Inr response \<Rightarrow>
                       Inr (text_of (response\<lparr>encoding := Some (lit ''utf-8'')\<rparr>)),
                 w))))"

definition get_project ::
  "console \<Rightarrow> str \<Rightarrow> decoded io" where
  "get_project self project_name w =
     (let http_method = lit ''GET'';
          uri = lit ''/v1/projects/'' @ project_name;
          (timestamp, w) = time_str w;
          string_to_sign =
            join (lit ''\<newline>'')
              [http_method, uri, access_key self, signature_version self, timestamp]
      in (case sign self string_to_sign of
            Inl e \<Rightarrow> (Inl e, w)
          | Inr signature \<Rightarrow>
             (let hdrs = headers self signature timestamp;
                  requrl = lit ''https://'' @ host self @ uri;
                  (r, w) = requests_get requrl None (Some hdrs) True w
              in (case r of
                     Inl e \<Rightarrow> Inl e
                   | Inr response \<Rightarrow>
                       Inr (text_of (response\<lparr>encoding := Some (lit ''utf-8'')\<rparr>)),
                 w))))"

definition list_projects ::
  "console \<Rightarrow> decoded io" where
  "list_projects self w =
     (let http_method = lit ''GET'';
          uri = lit ''/v1/projects'';
          (timestamp, w) = time_str w;
          string_to_sign =
            join (lit ''\<newline>'')
              [http_method, uri, access_key self, signature_version self, timestamp]
      in (case sign self string_to_sign of
            Inl e \<Rightarrow> (Inl e, w)
          | Inr signature \<Rightarrow>
             (let hdrs = headers self signature timestamp;
                  requrl = lit ''https://'' @ host self @ uri;
                  (r, w) = requests_get requrl None (Some hdrs) True w
              in (case r of
                     Inl e \<Rightarrow> Inl e
                   | Inr response \<Rightarrow>
                       Inr (text_of (response\<lparr>encoding := Some (lit ''utf-8'')\<rparr>)),
                 w))))"

definition add_monitor ::
  "console \<Rightarrow> str \<Rightarrow> str \<Rightarrow> str \<Rightarrow> str option \<Rightarrow> int option \<Rightarrow> int option \<Rightarrow>
   decoded io" where
  "add_monitor self project_name stream_name url region_opt realtime_opt record_opt w =
     (let region = default (lit ''ap-southeast-1'') region_opt;
          realtime = default 1 realtime_opt;
          record = default 0 record_opt;
          http_method = lit ''POST'';
          uri = lit ''/v1/monitor-streams'';
          (timestamp, w) = time_str w;
          string_to_sign =
            join (lit ''\<newline>'')
              [http_method, uri, access_key self, signature_version self, timestamp]
      in (case sign self string_to_sign of
            Inl e \<Rightarrow> (Inl e, w)
          | Inr signature \<Rightarrow>
             (let hdrs = headers self signature timestamp;
                  dat =
                [(''project_name'', FStr project_name), (''stream_name'', FStr stream_name),
                 (''url'', FStr url), (''region'', FStr region),
                 (''realtime'', FInt realtime), (''record'', FInt record)];
                  requrl = lit ''https://'' @ host self @ uri;
                  (r, w) = requests_post requrl (Some dat) (Some hdrs) True w
              in (case r of
                     Inl e \<Rightarrow> Inl e
                   | Inr response \<Rightarrow>
                       Inr (text_of (response\<lparr>encoding := Some (lit ''utf-8'')\<rparr>)),
                 w))))"

definition update_monitor ::
  "console \<Rightarrow> str \<Rightarrow> str \<Rightarrow> str \<Rightarrow> str option \<Rightarrow> int option \<Rightarrow> int option \<Rightarrow>
   decoded io" where
  "update_monitor self stream_id stream_name url region_opt realtime_opt record_opt w =
     (let region = default (lit ''ap-southeast-1'') region_opt;
          realtime = default 1 realtime_opt;
          record = default 0 record_opt;
          http_method = lit ''PUT'';
          uri = lit ''/v1/monitor-streams/'' @ stream_id;
          (timestamp, w) = time_str w;
          string_to_sign =
            join (lit ''\<newline>'')
              [http_method, uri, access_key self, signature_version self, timestamp]
      in (case sign self string_to_sign of
            Inl e \<Rightarrow> (Inl e, w)
          | Inr signature \<Rightarrow>
             (let hdrs = headers self signature timestamp;
                  dat =
                [(''stream_name'', FStr stream_name), (''url'', FStr url), (''region'', FStr region),
                 (''realtime'', FInt realtime), (''record'', FInt record)];
                  requrl = lit ''https://'' @ host self @ uri;
                  (r, w) = requests_put requrl (Some dat) (Some hdrs) True w
              in (case r of
                     Inl e \<Rightarrow> Inl e
                   | Inr response \<Rightarrow>
                       Inr (text_of (response\<lparr>encoding := Some (lit ''utf-8'')\<rparr>)),
                 w))))"

definition get_all_monitors ::
  "console \<Rightarrow> str \<Rightarrow> decoded io" where
  "get_all_monitors self project_name w =
     (let http_method = lit ''GET'';
          uri = lit ''/v1/monitor-streams'';
          (timestamp, w) = time_str w;
          string_to_sign =
            join (lit ''\<newline>'')
              [http_method, uri, access_key self, signature_version self, timestamp]
      in (case sign self string_to_sign of
            Inl e \<Rightarrow> (Inl e, w)
          | Inr signature \<Rightarrow>
             (let hdrs = headers self signature timestamp;
                  dat =
                [(''project_name'', FStr project_name)];
                  requrl = lit ''https://'' @ host self @ uri;
                  (r, w) = requests_put requrl (Some dat) (Some hdrs) True w
              in (case r of
                     Inl e \<Rightarrow> Inl e
                   | Inr response \<Rightarrow>
                       Inr (text_of (response\<lparr>encoding := Some (lit ''utf-8'')\<rparr>)),
                 w))))"

definition get_monitor ::
  "console \<Rightarrow> str \<Rightarrow> decoded io" where
  "get_monitor self stream_id w =
     (let http_method = lit ''GET'';
          uri = lit ''/v1/monitor-streams/'' @ stream_id;
          (timestamp, w) = time_str w;
          string_to_sign =
            join (lit ''\<newline>'')
              [http_method, uri, access_key self, signature_version self, timestamp]
      in (case sign self string_to_sign of
            Inl e \<Rightarrow> (Inl e, w)
          | Inr signature \<Rightarrow>
             (let hdrs = headers self signature timestamp;
                  requrl = lit ''https://'' @ host self @ uri;
                  (r, w) = requests_get requrl None (Some hdrs) True w
              in (case r of
                     Inl e \<Rightarrow> Inl e
                   | Inr response \<Rightarrow>
                       Inr (text_of (response\<lparr>encoding := Some (lit ''utf-8'')\<rparr>)),
                 w))))"

definition delete_monitor ::
  "console \<Rightarrow> str \<Rightarrow> decoded io" where
  "delete_monitor self stream_id w =
     (let http_method = lit ''DELETE'';
          uri = lit ''/v1/monitor-streams/'' @ stream_id;
          (timestamp, w) = time_str w;
          string_to_sign =
            join (lit ''\<newline>'')
              [http_method, uri, access_key self, signature_version self, timestamp]
      in (case sign self string_to_sign of
            Inl e \<Rightarrow> (Inl e, w)
          | Inr signature \<Rightarrow>
             (let hdrs = headers self signature timestamp;
                  requrl = lit ''https://'' @ host self @ uri;
                  (r, w) = requests_delete requrl None (Some hdrs) True w
              in (case r of
                     Inl e \<Rightarrow> Inl e
                   | Inr response \<Rightarrow>
                       Inr (text_of (response\<lparr>encoding := Some (lit ''utf-8'')\<rparr>)),
                 w))))"

definition action_monitor ::
  "console \<Rightarrow> str \<Rightarrow> str \<Rightarrow> decoded io" where
  "action_monitor self stream_id action w =
     (let http_method = lit ''PUT'';
          uri = lit ''/v1/monitor-streams/'' @ stream_id @ lit ''/'' @ action;
          (timestamp, w) = time_str w;
          string_to_sign =
            join (lit ''\<newline>'')
              [http_method, uri, access_key self, signature_version self, timestamp]
      in (case sign self string_to_sign of
            Inl e \<Rightarrow> (Inl e, w)
          | Inr signature \<Rightarrow>
             (let hdrs = headers self signature timestamp;
                  requrl = lit ''https://'' @ host self @ uri;
                  (r, w) = requests_put requrl None (Some hdrs) True w
              in (case r of
                     Inl e \<Rightarrow> Inl e
                   | Inr response \<Rightarrow>
                       Inr (text_of (response\<lparr>encoding := Some (lit ''utf-8'')\<rparr>)),
                 w))))"

definition pause_monitor :: "console \<Rightarrow> str \<Rightarrow> decoded io" where
  "pause_monitor self stream_id w = action_monitor self stream_id (lit ''pause'') w"

definition restart_monitor :: "console \<Rightarrow> str \<Rightarrow> decoded io" where
  "restart_monitor self stream_id w = action_monitor self stream_id (lit ''restart'') w"

section \<open>ACRCloudStreamMonitor\<close>

record monitor =
  access_key :: str
  stream_id :: str

text \<open>The constructor \<open>ACRCloudStreamMonitor(project_access_key, stream_id)\<close>.\<close>

definition ACRCloudStreamMonitor :: "str \<Rightarrow> str \<Rightarrow> monitor" where
  "ACRCloudStreamMonitor project_access_key sid =
     \<lparr>access_key = project_access_key, stream_id = sid\<rparr>"

text \<open>
  The retrievals call \<open>requests.get(requrl)\<close>: no form body, no headers, and the
  certificate check at its default, on.
\<close>

definition last_results ::
  "monitor \<Rightarrow> decoded io" where
  "last_results self w =
     (let requrl =
            lit ''https://api.acrcloud.com/v1/monitor-streams/'' @ stream_id self
            @ lit ''/results?access_key='' @ monitor.access_key self;
          (r, w) = requests_get requrl None None True w
      in (case r of
            Inl e \<Rightarrow> Inl e
          | Inr response \<Rightarrow>
              Inr (text_of (response\<lparr>encoding := Some (lit ''utf-8'')\<rparr>)),
          w))"

definition current_results ::
  "monitor \<Rightarrow> decoded io" where
  "current_results self w =
     (let requrl =
            lit ''https://api.acrcloud.com/v1/monitor-streams/'' @ stream_id self
            @ lit ''/results?access_key='' @ monitor.access_key self
            @ lit ''&type=current'';
          (r, w) = requests_get requrl None None True w
      in (case r of
            Inl e \<Rightarrow> Inl e
          | Inr response \<Rightarrow>
              Inr (text_of (response\<lparr>encoding := Some (lit ''utf-8'')\<rparr>)),
          w))"

text \<open>\<open>multiple_last_results\<close> raises what formatting the limit raises.\<close>

definition multiple_last_results ::
  "monitor \<Rightarrow> pyint \<Rightarrow> decoded io" where
  "multiple_last_results self limit w =
     (case format_int (int_max_str_digits w) limit of
        Inl e \<Rightarrow> (Inl e, w)
      | Inr limit_text \<Rightarrow>
         (let requrl =
                lit ''https://api.acrcloud.com/v1/monitor-streams/'' @ stream_id self
                @ lit ''/results?access_key='' @ monitor.access_key self
                @ lit ''&limit='' @ limit_text;
              (r, w) = requests_get requrl None None True w
          in (case r of
                Inl e \<Rightarrow> Inl e
              | Inr response \<Rightarrow>
                  Inr (text_of (response\<lparr>encoding := Some (lit ''utf-8'')\<rparr>)),
              w)))"

definition day_results ::
  "monitor \<Rightarrow> str \<Rightarrow> decoded io" where
  "day_results self date w =
     (let requrl =
            lit ''https://api.acrcloud.com/v1/monitor-streams/'' @ stream_id self
            @ lit ''/results?access_key='' @ monitor.access_key self @ lit ''&date='' @ date;
          (r, w) = requests_get requrl None None True w
      in (case r of
            Inl e \<Rightarrow> Inl e
          | Inr response \<Rightarrow>
              Inr (text_of (response\<lparr>encoding := Some (lit ''utf-8'')\<rparr>)),
          w))"

text \<open>\<open>month_results\<close> returns the response object itself.\<close>

definition month_results ::
  "monitor \<Rightarrow> str \<Rightarrow> response io" where
  "month_results self month w =
     (let requrl =
            lit ''https://monitoring-result.acrcloud.com/'' @ monitor.access_key self
            @ lit ''/'' @ stream_id self @ lit ''/'' @ month @ lit ''.zip'';
          (r, w) = requests_get requrl None None True w
      in (case r of Inl e \<Rightarrow> Inl e | Inr response \<Rightarrow> Inr response, w))"

definition period_results ::
  "monitor \<Rightarrow> str \<Rightarrow> str option \<Rightarrow> decoded io" where
  "period_results self begin_time end_time_opt w =
     (let end_time = default [] end_time_opt;
          requrl =
            lit ''https://api.acrcloud.com/v1/monitor-streams/'' @ stream_id self
            @ lit ''/results?access_key='' @ monitor.access_key self
            @ lit ''&begin_time='' @ begin_time @ lit ''&end_time='' @ end_time;
          (r, w) = requests_get requrl None None True w
      in (case r of
            Inl e \<Rightarrow> Inl e
          | Inr response \<Rightarrow>
              Inr (text_of (response\<lparr>encoding := Some (lit ''utf-8'')\<rparr>)),
          w))"

section \<open>What a call does, as the specification words it\<close>

text \<open>
  The canonical message of a signed call: the method, the path, the access key, the
  signature version and the timestamp, in that order, separated by single newlines.
\<close>

definition canonical_string :: "str \<Rightarrow> str \<Rightarrow> str \<Rightarrow> str \<Rightarrow> str \<Rightarrow> str" where
  "canonical_string http_method uri_path key version timestamp =
     http_method @ lit ''\<newline>'' @ uri_path @ lit ''\<newline>'' @ key @ lit ''\<newline>''
     @ version @ lit ''\<newline>'' @ timestamp"

text \<open>
  The canonical message for a path can be signed when the path, the access key and the
  signature version have a UTF-8 encoding; the method and the timestamp always have one.
\<close>

definition signable :: "console \<Rightarrow> str \<Rightarrow> bool" where
  "signable self uri_path =
     (encodable uri_path \<and> encodable (console.access_key self)
      \<and> encodable (signature_version self))"

text \<open>
  The headers of a signed call for the given method and path at the given timestamp: the
  signature is the base64 text of the HMAC-SHA1 digest, under the access secret, of the
  UTF-8 bytes of the canonical message built from the same timestamp.
\<close>

definition signed_headers :: "console \<Rightarrow> string \<Rightarrow> str \<Rightarrow> string \<Rightarrow> header_dict" where
  "signed_headers self http_method uri_path timestamp =
     [(''access-key'', HStr (console.access_key self)),
      (''signature-version'', HStr (signature_version self)),
      (''signature'',
       HBytes (b64encode (hmac sha1 64 (access_secret self)
         (utf8 (canonical_string (lit http_method) uri_path (console.access_key self)
                  (signature_version self) (lit timestamp)))))),
      (''timestamp'', HStr (lit timestamp))]"

text \<open>The name a verb has in the request line.\<close>

fun verb_name :: "verb \<Rightarrow> string" where
  "verb_name GET = ''GET''"
| "verb_name POST = ''POST''"
| "verb_name PUT = ''PUT''"
| "verb_name DELETE = ''DELETE''"

text \<open>The body of the answer as UTF-8 text; an exception of the transport as it is.\<close>

definition reply_text :: "error + response \<Rightarrow> error + decoded" where
  "reply_text r =
     (case r of
        Inl e \<Rightarrow> Inl e
      | Inr response \<Rightarrow> Inr (Decode (Some (lit ''utf-8'')) (content response)))"

text \<open>The requests a call hands to \<open>requests\<close> when it runs in the world \<open>w\<close>, in order.\<close>

definition issued :: "'a io \<Rightarrow> world \<Rightarrow> request list" where
  "issued call w = drop (length (sent w)) (sent (snd (call w)))"

text \<open>A field of the form body of a request.\<close>

definition form_field :: "string \<Rightarrow> request \<Rightarrow> fval option" where
  "form_field k rq = (case rq_data rq of None \<Rightarrow> None | Some dat \<Rightarrow> map_of dat k)"

text \<open>A request without the two headers that change with the time of the call.\<close>

definition without_time_headers :: "request \<Rightarrow> request" where
  "without_time_headers rq =
     rq\<lparr>rq_headers :=
          map_option (filter (\<lambda>(k, v). k \<noteq> ''timestamp'' \<and> k \<noteq> ''signature''))
            (rq_headers rq)\<rparr>"

text \<open>
  A signed call of the console, for a verb, the method to sign, a path and a form body
  (or the exception that building the body raises). The clock is read once. If the
  canonical message cannot be signed, \<open>UnicodeEncodeError\<close> is raised with that message;
  if the body cannot be built, its exception is raised; in both cases nothing is sent.
  Otherwise the request, with the headers signed at the reading of the clock, is sent
  once, and the answer is returned as text.
\<close>

definition signed_call ::
  "console \<Rightarrow> verb \<Rightarrow> string \<Rightarrow> str \<Rightarrow> error + form option \<Rightarrow> decoded io" where
  "signed_call self v http_method uri_path body w =
     (let now = clock w (reads w);
          w' = w\<lparr>reads := Suc (reads w)\<rparr>
      in if \<not> signable self uri_path then
           (Inl (UnicodeEncodeError
                   (canonical_string (lit http_method) uri_path (console.access_key self)
                      (signature_version self) (lit now))),
            w')
         else
           (case body of
              Inl e \<Rightarrow> (Inl e, w')
            | Inr dat \<Rightarrow>
               (let rq = \<lparr>rq_verb = v, rq_url = lit ''https://'' @ host self @ uri_path,
                          rq_data = dat,
                          rq_headers = Some (signed_headers self http_method uri_path now),
                          rq_verify = True\<rparr>
                in (reply_text (transport w (sent w) rq), w'\<lparr>sent := sent w @ [rq]\<rparr>))))"

text \<open>An unsigned GET of a URL, sent once, the answer returned as text.\<close>

definition plain_get :: "str \<Rightarrow> decoded io" where
  "plain_get url w =
     (let rq = \<lparr>rq_verb = GET, rq_url = url, rq_data = None, rq_headers = None,
                rq_verify = True\<rparr>
      in (reply_text (transport w (sent w) rq), w\<lparr>sent := sent w @ [rq]\<rparr>))"

text \<open>The number that a string of decimal digits stands for.\<close>

definition decimal_value :: "str \<Rightarrow> nat" where
  "decimal_value ds = foldl (\<lambda>a d. 10 * a + (d - 48)) 0 ds"

text \<open>
  A console, a monitor and a world to run examples in: the clock shows 1000.0, the
  interpreter allows 4300 digits, every request is answered with status 200 and an
  empty body.
\<close>

definition example_console :: console where
  "example_console = ACRCloudConsole (lit ''K1'') (ascii ''abc'')"

definition example_monitor :: monitor where
  "example_monitor = ACRCloudStreamMonitor (lit ''K2'') (lit ''11396'')"

definition example_world :: world where
  "example_world =
     \<lparr>clock = (\<lambda>k. ''1000.0''), reads = 0, int_max_str_digits = 4300,
      transport = (\<lambda>before rq. Inr \<lparr>status_code = 200, content = [], encoding = None\<rparr>),
      sent = []\<rparr>"

section \<open>The operations, run\<close>

text \<open>Strings that always have a UTF-8 encoding, and when the canonical message has one.\<close>

lemma of_char_less_256: "(of_char c :: nat) < 256"
proof -
  have "(of_char c :: nat) mod 256 < 256"
    by simp
  then show ?thesis
    by (simp only: of_char_mod_256)
qed

lemma encodable_Nil: "encodable []"
  by (simp add: encodable_def)

lemma encodable_append: "encodable (s @ t) = (encodable s \<and> encodable t)"
  by (auto simp add: encodable_def list_ex_iff)

lemma encodable_lit: "encodable (lit s)"
proof -
  have "\<not> is_surrogate (of_char c)" for c
    using of_char_less_256 [of c] unfolding is_surrogate_def by linarith
  then show ?thesis
    by (simp add: encodable_def lit_def list_ex_iff)
qed

lemma encodable_canonical_string:
  "encodable
     (canonical_string (lit m) u (console.access_key self) (signature_version self) (lit ts))
   = signable self u"
  by (simp add: canonical_string_def signable_def encodable_append encodable_lit)

lemma join_canonical:
  "join (lit ''\<newline>'') [m, u, key, ver, ts] = canonical_string m u key ver ts"
  by (simp add: canonical_string_def)

lemma sign_canonical:
  "sign self (canonical_string (lit m) u (console.access_key self) (signature_version self) (lit ts))
   = (if signable self u then
        Inr (b64encode (hmac sha1 64 (access_secret self)
          (utf8 (canonical_string (lit m) u (console.access_key self)
                   (signature_version self) (lit ts)))))
      else
        Inl (UnicodeEncodeError
          (canonical_string (lit m) u (console.access_key self) (signature_version self)
             (lit ts))))"
  by (simp add: sign_def encode_def encodable_canonical_string hmac_sha1_def)

text \<open>Every operation of the console is one signed call; every text retrieval of the
  monitor but \<open>multiple_last_results\<close> is one unsigned GET.\<close>

lemmas run_defs = Let_def split_def time_str_def requests_request_def requests_get_def
  requests_post_def requests_put_def requests_delete_def headers_def text_of_def
  signed_call_def signed_headers_def reply_text_def plain_get_def default_def
  join_canonical sign_canonical

lemma add_project_run:
  "add_project self project_name type_opt buckets audio_type_opt external_id_opt region_opt w =
     signed_call self POST ''POST'' (lit ''/v1/projects'')
       (case json_dumps (int_max_str_digits w)
               (JList (default [JDict [(lit ''name'', JStr (lit ''ACRCloud Music''))]] buckets)) of
          Inl e \<Rightarrow> Inl e
        | Inr dumped \<Rightarrow>
            Inr (Some [(''name'', FStr project_name),
                       (''region'', FStr (default (lit ''ap-southeast-1'') region_opt)),
                       (''type'', FStr (default (lit ''BM-ACRC'') type_opt)),
                       (''buckets'', FStr dumped),
                       (''audio_type'', FInt (default 2 audio_type_opt)),
                       (''external_id'', FStr (default [] external_id_opt))])) w"
  by (simp add: add_project_def run_defs del: join.simps split: sum.splits option.splits)

lemma update_project_run:
  "update_project self project_name buckets w =
     signed_call self POST ''POST'' (lit ''/v1/projects/'' @ project_name)
       (case json_dumps (int_max_str_digits w)
               (JList (default [JDict [(lit ''name'', JStr (lit ''ACRCloud Music''))]] buckets)) of
          Inl e \<Rightarrow> Inl e
        | Inr dumped \<Rightarrow> Inr (Some [(''buckets'', FStr dumped)])) w"
  by (simp add: update_project_def run_defs del: join.simps split: sum.splits option.splits)

lemma delete_project_run:
  "delete_project self project_name w =
     signed_call self DELETE ''DELETE'' (lit ''/v1/projects/'' @ project_name)
       (Inr (Some [(''name'', FStr project_name)])) w"
  by (simp add: delete_project_def run_defs del: join.simps split: sum.splits option.splits)

lemma get_project_run:
  "get_project self project_name w =
     signed_call self GET ''GET'' (lit ''/v1/projects/'' @ project_name)
       (Inr None) w"
  by (simp add: get_project_def run_defs del: join.simps split: sum.splits option.splits)

lemma list_projects_run:
  "list_projects self w =
     signed_call self GET ''GET'' (lit ''/v1/projects'')
       (Inr None) w"
  by (simp add: list_projects_def run_defs del: join.simps split: sum.splits option.splits)

lemma add_monitor_run:
  "add_monitor self project_name stream_name url region_opt realtime_opt record_opt w =
     signed_call self POST ''POST'' (lit ''/v1/monitor-streams'')
       (Inr (Some [(''project_name'', FStr project_name), (''stream_name'', FStr stream_name),
                   (''url'', FStr url),
                   (''region'', FStr (default (lit ''ap-southeast-1'') region_opt)),
                   (''realtime'', FInt (default 1 realtime_opt)),
                   (''record'', FInt (default 0 record_opt))])) w"
  by (simp add: add_monitor_def run_defs del: join.simps split: sum.splits option.splits)

lemma update_monitor_run:
  "update_monitor self sid stream_name url region_opt realtime_opt record_opt w =
     signed_call self PUT ''PUT'' (lit ''/v1/monitor-streams/'' @ sid)
       (Inr (Some [(''stream_name'', FStr stream_name), (''url'', FStr url),
                   (''region'', FStr (default (lit ''ap-southeast-1'') region_opt)),
                   (''realtime'', FInt (default 1 realtime_opt)),
                   (''record'', FInt (default 0 record_opt))])) w"
  by (simp add: update_monitor_def run_defs del: join.simps split: sum.splits option.splits)

lemma get_all_monitors_run:
  "get_all_monitors self project_name w =
     signed_call self PUT ''GET'' (lit ''/v1/monitor-streams'')
       (Inr (Some [(''project_name'', FStr project_name)])) w"
  by (simp add: get_all_monitors_def run_defs del: join.simps split: sum.splits option.splits)

lemma get_monitor_run:
  "get_monitor self sid w =
     signed_call self GET ''GET'' (lit ''/v1/monitor-streams/'' @ sid)
       (Inr None) w"
  by (simp add: get_monitor_def run_defs del: join.simps split: sum.splits option.splits)

lemma delete_monitor_run:
  "delete_monitor self sid w =
     signed_call self DELETE ''DELETE'' (lit ''/v1/monitor-streams/'' @ sid)
       (Inr None) w"
  by (simp add: delete_monitor_def run_defs del: join.simps split: sum.splits option.splits)

lemma action_monitor_run:
  "action_monitor self sid action w =
     signed_call self PUT ''PUT'' (lit ''/v1/monitor-streams/'' @ sid @ lit ''/'' @ action)
       (Inr None) w"
  by (simp add: action_monitor_def run_defs del: join.simps split: sum.splits option.splits)

lemma last_results_run:
  "last_results self =
     plain_get
       (lit ''https://api.acrcloud.com/v1/monitor-streams/'' @ stream_id self
        @ lit ''/results?access_key='' @ monitor.access_key self)"
  by (rule ext) (simp add: last_results_def run_defs split: sum.splits option.splits)

lemma current_results_run:
  "current_results self =
     plain_get
       (lit ''https://api.acrcloud.com/v1/monitor-streams/'' @ stream_id self
        @ lit ''/results?access_key='' @ monitor.access_key self @ lit ''&type=current'')"
  by (rule ext) (simp add: current_results_def run_defs split: sum.splits option.splits)

lemma day_results_run:
  "day_results self date =
     plain_get
       (lit ''https://api.acrcloud.com/v1/monitor-streams/'' @ stream_id self
        @ lit ''/results?access_key='' @ monitor.access_key self @ lit ''&date='' @ date)"
  by (rule ext) (simp add: day_results_def run_defs split: sum.splits option.splits)

lemma period_results_run:
  "period_results self begin_time end_time_opt =
     plain_get
       (lit ''https://api.acrcloud.com/v1/monitor-streams/'' @ stream_id self
        @ lit ''/results?access_key='' @ monitor.access_key self
        @ lit ''&begin_time='' @ begin_time @ lit ''&end_time='' @ default [] end_time_opt)"
  by (rule ext) (simp add: period_results_def run_defs split: sum.splits option.splits)

lemma multiple_last_results_run:
  "multiple_last_results self limit w =
     (case format_int (int_max_str_digits w) limit of
        Inl e \<Rightarrow> (Inl e, w)
      | Inr limit_text \<Rightarrow>
          plain_get
            (lit ''https://api.acrcloud.com/v1/monitor-streams/'' @ stream_id self
             @ lit ''/results?access_key='' @ monitor.access_key self
             @ lit ''&limit='' @ limit_text) w)"
  by (simp add: multiple_last_results_def run_defs split: sum.splits option.splits)

lemma month_results_run:
  "month_results self month w =
     (let rq = \<lparr>rq_verb = GET,
                rq_url = lit ''https://monitoring-result.acrcloud.com/''
                         @ monitor.access_key self @ lit ''/'' @ stream_id self @ lit ''/''
                         @ month @ lit ''.zip'',
                rq_data = None, rq_headers = None, rq_verify = True\<rparr>
      in (transport w (sent w) rq, w\<lparr>sent := sent w @ [rq]\<rparr>))"
  by (simp add: month_results_def run_defs split: sum.splits)

lemma issued_signed_call:
  "issued (signed_call self v m u body) w =
     (if signable self u then
        (case body of
           Inl e \<Rightarrow> []
         | Inr dat \<Rightarrow>
             [\<lparr>rq_verb = v, rq_url = lit ''https://'' @ host self @ u, rq_data = dat,
               rq_headers = Some (signed_headers self m u (clock w (reads w))),
               rq_verify = True\<rparr>])
      else [])"
  by (simp add: issued_def signed_call_def Let_def split: sum.splits)

lemma issued_plain_get:
  "issued (plain_get url) w =
     [\<lparr>rq_verb = GET, rq_url = url, rq_data = None, rq_headers = None, rq_verify = True\<rparr>]"
  by (simp add: issued_def plain_get_def Let_def)

section \<open>Integers as text\<close>

text \<open>
  The decimal digits of a number stand for that number; a number of at least \<open>10 ^ k\<close>
  has more than \<open>k\<close> digits, and a number below \<open>10 ^ k\<close> at most \<open>k\<close>.
\<close>

lemma decimal_value_append: "decimal_value (ds @ [d]) = 10 * decimal_value ds + (d - 48)"
  by (simp add: decimal_value_def)

lemma decimal_value_decimal: "decimal_value (decimal n) = n"
proof (induction n rule: decimal.induct)
  case (1 n)
  show ?case
  proof (cases "n < 10")
    case True
    then show ?thesis
      by (simp add: decimal.simps [of n] decimal_value_def)
  next
    case False
    with 1 have "decimal_value (decimal (n div 10)) = n div 10"
      by simp
    with False show ?thesis
      by (simp add: decimal.simps [of n] decimal_value_append)
  qed
qed

lemma decimal_digits: "set (decimal n) \<subseteq> {48..57}"
proof (induction n rule: decimal.induct)
  case (1 n)
  show ?case
  proof (cases "n < 10")
    case True
    then show ?thesis
      by (simp add: decimal.simps [of n])
  next
    case False
    define m where "m = n mod 10"
    have "m < 10"
      by (simp add: m_def)
    then have "48 \<le> 48 + m \<and> 48 + m \<le> 57"
      by simp
    with 1 False show ?thesis
      by (simp add: decimal.simps [of n] m_def)
  qed
qed

lemma length_decimal_ge: "10 ^ k \<le> n \<Longrightarrow> k < length (decimal n)"
proof (induction k arbitrary: n)
  case 0
  show ?case
    by (cases "n < 10") (simp_all add: decimal.simps [of n])
next
  case (Suc k)
  then have "10 * 10 ^ k \<le> n"
    by simp
  then have big: "10 ^ k \<le> n div 10"
    by (metis div_le_mono nonzero_mult_div_cancel_left zero_neq_numeral)
  have "(10 :: nat) \<le> 10 * 10 ^ k"
    by simp
  from this \<open>10 * 10 ^ k \<le> n\<close> have "10 \<le> n"
    by (rule order_trans)
  then have "\<not> n < 10"
    by simp
  with Suc.IH [OF big] show ?case
    by (simp add: decimal.simps [of n])
qed

lemma length_decimal_le: "0 < k \<Longrightarrow> n < 10 ^ k \<Longrightarrow> length (decimal n) \<le> k"
proof (induction k arbitrary: n)
  case 0
  then show ?case
    by simp
next
  case (Suc k)
  show ?case
  proof (cases "n < 10")
    case True
    then show ?thesis
      by (simp add: decimal.simps [of n])
  next
    case False
    from Suc.prems have "n < 10 * 10 ^ k"
      by simp
    then have small: "n div 10 < 10 ^ k"
      by (simp add: less_mult_imp_div_less mult.commute)
    have "0 < k"
    proof (rule ccontr)
      assume "\<not> 0 < k"
      then have "k = 0"
        by simp
      with Suc.prems False show False
        by simp
    qed
    from Suc.IH [OF this small] False show ?thesis
      by (simp add: decimal.simps [of n])
  qed
qed

lemma nat_abs_power_10: "nat \<bar>(10 :: int) ^ k\<bar> = 10 ^ k"
  by (simp add: nat_power_eq)

lemma digits_refused_over_limit:
  "0 < max_digits \<Longrightarrow> 10 ^ max_digits \<le> \<bar>i\<bar> \<Longrightarrow> digits_refused max_digits i"
proof -
  assume pos: "0 < max_digits" and big: "10 ^ max_digits \<le> \<bar>i\<bar>"
  from big have "nat (10 ^ max_digits) \<le> nat \<bar>i\<bar>"
    by (rule nat_mono)
  moreover have "nat ((10 :: int) ^ max_digits) = 10 ^ max_digits"
    by (simp add: nat_power_eq)
  ultimately have "10 ^ max_digits \<le> nat \<bar>i\<bar>"
    by (simp only:)
  then have "max_digits < length (decimal (nat \<bar>i\<bar>))"
    by (rule length_decimal_ge)
  with pos show ?thesis
    by (simp add: digits_refused_def)
qed

lemma str_int_examples:
  "str_int 4300 50 = Inr (lit ''50'')"
  "str_int 4300 0 = Inr (lit ''0'')"
  "str_int 4300 (- 5) = Inr (lit ''-5'')"
  "str_int 4300 1000 = Inr (lit ''1000'')"
  "str_int 0 1234567890 = Inr (lit ''1234567890'')"
  by (simp_all add: str_int_def digits_refused_def int_text_def decimal.simps lit_def)

section \<open>The signature\<close>

text \<open>
  The padded message is a whole number of 64-byte blocks, so every block that is
  compressed has its sixteen words.
\<close>

lemma pad_length_mod: "(n + 1 + (119 - n mod 64) mod 64 + 8) mod 64 = (0 :: nat)"
proof -
  define r where "r = n mod 64"
  define q where "q = n div 64"
  have n: "n = 64 * q + r" and r: "r < 64"
    by (simp_all add: r_def q_def)
  have "\<exists>k. n + 1 + (119 - r) mod 64 + 8 = 64 * k"
  proof (cases "r \<le> 55")
    case True
    have "(64 + (55 - r)) mod 64 = 55 - r"
      by simp
    moreover have "119 - r = 64 + (55 - r)"
      using True by linarith
    ultimately have "(119 - r) mod 64 = 55 - r"
      by (simp only:)
    moreover have "n + 1 + (55 - r) + 8 = 64 * (q + 1)"
      using True by (simp add: n)
    ultimately have "n + 1 + (119 - r) mod 64 + 8 = 64 * (q + 1)"
      by (simp only:)
    then show ?thesis ..
  next
    case False
    have "(119 - r) mod 64 = 119 - r"
      using False by simp
    moreover have "n + 1 + (119 - r) + 8 = 64 * (q + 2)"
      using False r by (simp add: n)
    ultimately have "n + 1 + (119 - r) mod 64 + 8 = 64 * (q + 2)"
      by (simp only:)
    then show ?thesis ..
  qed
  then obtain k where "n + 1 + (119 - r) mod 64 + 8 = 64 * k" ..
  then show ?thesis
    by (simp only: r_def mod_mult_self1_is_0)
qed

lemma sha1_pad_whole_blocks: "length (sha1_pad m) mod 64 = 0"
proof -
  have "length (sha1_pad m) = length m + 1 + (119 - length m mod 64) mod 64 + 8"
    by (simp add: sha1_pad_def be64_def)
  then show ?thesis
    by (simp only: pad_length_mod)
qed

lemma chunks_whole:
  "0 < n \<Longrightarrow> length xs mod n = 0 \<Longrightarrow> b \<in> set (chunks n xs) \<Longrightarrow> length b = n"
proof (induction n xs rule: chunks.induct)
  case (1 n xs)
  show ?case
  proof (cases "xs = []")
    case True
    with "1.prems" show ?thesis
      by (simp add: chunks.simps [of n "[]"])
  next
    case False
    with "1.prems" have le: "n \<le> length xs"
      by (metis length_0_conv mod_less not_le)
    from "1.prems" have "n dvd length xs"
      by (simp only: mod_eq_0_iff_dvd)
    then have "n dvd length xs - n"
      by (rule dvd_diff_nat) (rule dvd_refl)
    then have drop_mod: "length (drop n xs) mod n = 0"
      by (simp only: length_drop mod_eq_0_iff_dvd)
    from "1.prems" False have "b = take n xs \<or> b \<in> set (chunks n (drop n xs))"
      by (simp add: chunks.simps [of n xs])
    then show ?thesis
    proof
      assume "b = take n xs"
      with le show ?thesis
        by simp
    next
      assume "b \<in> set (chunks n (drop n xs))"
      with "1.IH" "1.prems" False drop_mod show ?thesis
        by blast
    qed
  qed
qed

lemma sha1_blocks_whole: "b \<in> set (chunks 64 (sha1_pad m)) \<Longrightarrow> length b = 64"
  using chunks_whole [of 64 "sha1_pad m" b] sha1_pad_whole_blocks [of m] by simp

lemma length_be32: "length (be32 x) = 4"
  by (simp add: be32_def)

lemma length_sha1: "length (sha1 m) = 20"
  by (simp add: sha1_def length_be32 split: prod.splits)

lemma length_hmac_sha1: "length (hmac_sha1 key msg) = 20"
  by (simp add: hmac_sha1_def hmac_def Let_def length_sha1)

lemma length_b64encode: "length (b64encode bs) = 4 * ((length bs + 2) div 3)"
proof (induction bs rule: b64encode.induct)
  case (4 a b c rest)
  have "(5 + length rest) div 3 = Suc ((length rest + 2) div 3)"
    by simp
  with 4 show ?case
    by simp
qed simp_all

lemma length_signature: "length (b64encode (hmac sha1 64 key msg)) = 28"
  using length_hmac_sha1 [of key msg] by (simp add: length_b64encode hmac_sha1_def)

lemma b64_char_in_alphabet: "n < 64 \<Longrightarrow> b64_char n \<in> set (ascii b64_alphabet)"
proof -
  assume "n < 64"
  then have "n < length b64_alphabet"
    by (simp add: b64_alphabet_def)
  then have "b64_alphabet ! n \<in> set b64_alphabet"
    by (rule nth_mem)
  then show ?thesis
    by (simp add: b64_char_def ascii_def)
qed

lemma unat_byte_less: "unat (a :: byte) < 256"
  using unsigned_less [of a, where 'a = nat] by simp

lemma b64encode_alphabet: "set (b64encode bs) \<subseteq> set (ascii b64_alphabet) \<union> {b64_pad}"
proof (induction bs rule: b64encode.induct)
  case 1
  show ?case by simp
next
  case (2 a)
  have "unat a div 4 < 64" "unat a mod 4 * 16 < 64"
    using unat_byte_less [of a] by simp_all
  then show ?case
    by (simp add: b64_char_in_alphabet)
next
  case (3 a b)
  have "unat a div 4 < 64" "unat a mod 4 * 16 + unat b div 16 < 64" "unat b mod 16 * 4 < 64"
    using unat_byte_less [of a] unat_byte_less [of b] by simp_all
  then show ?case
    by (simp add: b64_char_in_alphabet)
next
  case (4 a b c rest)
  have "unat a div 4 < 64" "unat a mod 4 * 16 + unat b div 16 < 64"
    "unat b mod 16 * 4 + unat c div 64 < 64" "unat c mod 64 < 64"
    using unat_byte_less [of a] unat_byte_less [of b] unat_byte_less [of c] by simp_all
  with 4 show ?case
    by (auto simp add: b64_char_in_alphabet)
qed

text \<open>
  Evaluating SHA-1 on a literal message: each step is reduced to a numeral below \<open>2 ^ 32\<close>
  before the next one starts.
\<close>

lemma schedule_numeral:
  "schedule (numeral k) ws =
     schedule (pred_numeral k)
       (word_of_nat (unat (rotl 1 (ws ! 2 XOR ws ! 7 XOR ws ! 13 XOR ws ! 15))) # ws)"
  by (simp add: numeral_eq_Suc)

lemma schedule_Suc:
  "schedule (Suc n) ws =
     schedule n (word_of_nat (unat (rotl 1 (ws ! 2 XOR ws ! 7 XOR ws ! 13 XOR ws ! 15))) # ws)"
  by simp

lemma rounds_step:
  "rounds t (w # ws) (a, b, c, d, e) =
     rounds (t + 1) ws
       (word_of_nat (unat (rotl 5 a + sha1_f t b c d + e + sha1_k t + w)), a,
        word_of_nat (unat (rotl 30 b)), c, d)"
  by simp

lemma replicate_numeral: "replicate (numeral k) x = x # replicate (pred_numeral k) x"
  by (simp add: numeral_eq_Suc)

lemmas sha1_eval = sha1_def sha1_pad_def be64_def be32_def chunks.simps word_of_be_def rotl_def
  sha1_f_def sha1_k_def schedule_numeral schedule_Suc rounds_step replicate_numeral

text \<open>
  Three signatures computed step by step: an ASCII message; a message with a two-byte, a
  three-byte and a four-byte character (U+00E9, U+20AC, U+1F600); and a key of 70 bytes,
  longer than a block, which is hashed first.
\<close>

lemma sha1_ascii_inner:
  "sha1
     [87, 84, 85, 54, 54, 54, 54, 54, 54, 54, 54, 54, 54, 54, 54, 54, 54, 54, 54, 54,
     54, 54, 54, 54, 54, 54, 54, 54, 54, 54, 54, 54, 54, 54, 54, 54, 54, 54, 54, 54, 54,
     54, 54, 54, 54, 54, 54, 54, 54, 54, 54, 54, 54, 54, 54, 54, 54, 54, 54, 54, 54, 54,
     54, 54, 71, 69, 84, 10, 47, 118, 49, 47, 112, 114, 111, 106, 101, 99, 116, 115, 10,
     75, 49, 10, 49, 10, 49, 48, 48, 48, 46, 48] =
   [195, 206, 197, 245, 66, 91, 214, 117, 213, 92, 135, 188, 248, 187, 224, 163, 102,
   32, 93, 254]"
  by (simp add: sha1_eval del: schedule.simps(2) rounds.simps(2))

lemma sha1_ascii_outer:
  "sha1
     [61, 62, 63, 92, 92, 92, 92, 92, 92, 92, 92, 92, 92, 92, 92, 92, 92, 92, 92, 92,
     92, 92, 92, 92, 92, 92, 92, 92, 92, 92, 92, 92, 92, 92, 92, 92, 92, 92, 92, 92, 92,
     92, 92, 92, 92, 92, 92, 92, 92, 92, 92, 92, 92, 92, 92, 92, 92, 92, 92, 92, 92, 92,
     92, 92, 195, 206, 197, 245, 66, 91, 214, 117, 213, 92, 135, 188, 248, 187, 224,
     163, 102, 32, 93, 254] =
   [241, 46, 189, 125, 192, 118, 18, 41, 93, 15, 73, 144, 8, 164, 89, 108, 166, 61, 106,
   121]"
  by (simp add: sha1_eval del: schedule.simps(2) rounds.simps(2))

lemma utf8_ascii:
  "utf8 (lit ''GET\<newline>/v1/projects\<newline>K1\<newline>1\<newline>1000.0'') =
   [71, 69, 84, 10, 47, 118, 49, 47, 112, 114, 111, 106, 101, 99, 116, 115, 10, 75, 49,
   10, 49, 10, 49, 48, 48, 48, 46, 48]"
  by (simp add: utf8_def encode_char_def lit_def)

lemma hmac_sha1_ascii:
  "hmac sha1 64 (ascii ''abc'')
     (utf8 (lit ''GET\<newline>/v1/projects\<newline>K1\<newline>1\<newline>1000.0'')) =
   [241, 46, 189, 125, 192, 118, 18, 41, 93, 15, 73, 144, 8, 164, 89, 108, 166, 61, 106,
   121]"
  by (simp add: utf8_ascii)
    (simp add: hmac_def Let_def ascii_def replicate_numeral sha1_ascii_inner sha1_ascii_outer)

lemma b64encode_ascii:
  "b64encode
     [241, 46, 189, 125, 192, 118, 18, 41, 93, 15, 73, 144, 8, 164, 89, 108, 166, 61,
     106, 121] =
   ascii ''8S69fcB2EildD0mQCKRZbKY9ank=''"
  by (simp add: ascii_def b64_char_def b64_alphabet_def b64_pad_def)

lemma sha1_wide_inner:
  "sha1
     [87, 84, 85, 54, 54, 54, 54, 54, 54, 54, 54, 54, 54, 54, 54, 54, 54, 54, 54, 54,
     54, 54, 54, 54, 54, 54, 54, 54, 54, 54, 54, 54, 54, 54, 54, 54, 54, 54, 54, 54, 54,
     54, 54, 54, 54, 54, 54, 54, 54, 54, 54, 54, 54, 54, 54, 54, 54, 54, 54, 54, 54, 54,
     54, 54, 195, 169, 226, 130, 172, 240, 159, 152, 128] =
   [224, 8, 119, 51, 5, 47, 210, 178, 33, 182, 130, 90, 28, 199, 222, 67, 228, 118, 243,
   177]"
  by (simp add: sha1_eval del: schedule.simps(2) rounds.simps(2))

lemma sha1_wide_outer:
  "sha1
     [61, 62, 63, 92, 92, 92, 92, 92, 92, 92, 92, 92, 92, 92, 92, 92, 92, 92, 92, 92,
     92, 92, 92, 92, 92, 92, 92, 92, 92, 92, 92, 92, 92, 92, 92, 92, 92, 92, 92, 92, 92,
     92, 92, 92, 92, 92, 92, 92, 92, 92, 92, 92, 92, 92, 92, 92, 92, 92, 92, 92, 92, 92,
     92, 92, 224, 8, 119, 51, 5, 47, 210, 178, 33, 182, 130, 90, 28, 199, 222, 67, 228,
     118, 243, 177] =
   [24, 3, 121, 10, 103, 124, 71, 46, 224, 228, 69, 117, 153, 211, 143, 206, 72, 65, 91,
   18]"
  by (simp add: sha1_eval del: schedule.simps(2) rounds.simps(2))

lemma utf8_wide:
  "utf8 [0xE9, 0x20AC, 0x1F600] =
   [195, 169, 226, 130, 172, 240, 159, 152, 128]"
  by (simp add: utf8_def encode_char_def lit_def)

lemma hmac_sha1_wide:
  "hmac sha1 64 (ascii ''abc'')
     (utf8 [0xE9, 0x20AC, 0x1F600]) =
   [24, 3, 121, 10, 103, 124, 71, 46, 224, 228, 69, 117, 153, 211, 143, 206, 72, 65, 91,
   18]"
  by (simp add: utf8_wide)
    (simp add: hmac_def Let_def ascii_def replicate_numeral sha1_wide_inner sha1_wide_outer)

lemma b64encode_wide:
  "b64encode
     [24, 3, 121, 10, 103, 124, 71, 46, 224, 228, 69, 117, 153, 211, 143, 206, 72, 65,
     91, 18] =
   ascii ''GAN5Cmd8Ry7g5EV1mdOPzkhBWxI=''"
  by (simp add: ascii_def b64_char_def b64_alphabet_def b64_pad_def)

lemma sha1_long_key_key:
  "sha1
     [48, 49, 50, 51, 52, 53, 54, 55, 56, 57, 48, 49, 50, 51, 52, 53, 54, 55, 56, 57,
     48, 49, 50, 51, 52, 53, 54, 55, 56, 57, 48, 49, 50, 51, 52, 53, 54, 55, 56, 57, 48,
     49, 50, 51, 52, 53, 54, 55, 56, 57, 48, 49, 50, 51, 52, 53, 54, 55, 56, 57, 48, 49,
     50, 51, 52, 53, 54, 55, 56, 57] =
   [25, 69, 34, 178, 189, 177, 241, 131, 138, 45, 45, 36, 162, 72, 32, 32, 1, 172, 104,
   56]"
  by (simp add: sha1_eval del: schedule.simps(2) rounds.simps(2))

lemma sha1_long_key_inner:
  "sha1
     [47, 115, 20, 132, 139, 135, 199, 181, 188, 27, 27, 18, 148, 126, 22, 22, 55, 154,
     94, 14, 54, 54, 54, 54, 54, 54, 54, 54, 54, 54, 54, 54, 54, 54, 54, 54, 54, 54, 54,
     54, 54, 54, 54, 54, 54, 54, 54, 54, 54, 54, 54, 54, 54, 54, 54, 54, 54, 54, 54, 54,
     54, 54, 54, 54, 104, 105] =
   [41, 45, 80, 214, 121, 182, 54, 133, 172, 189, 12, 27, 117, 102, 30, 101, 27, 177,
   42, 49]"
  by (simp add: sha1_eval del: schedule.simps(2) rounds.simps(2))

lemma sha1_long_key_outer:
  "sha1
     [69, 25, 126, 238, 225, 237, 173, 223, 214, 113, 113, 120, 254, 20, 124, 124, 93,
     240, 52, 100, 92, 92, 92, 92, 92, 92, 92, 92, 92, 92, 92, 92, 92, 92, 92, 92, 92,
     92, 92, 92, 92, 92, 92, 92, 92, 92, 92, 92, 92, 92, 92, 92, 92, 92, 92, 92, 92, 92,
     92, 92, 92, 92, 92, 92, 41, 45, 80, 214, 121, 182, 54, 133, 172, 189, 12, 27, 117,
     102, 30, 101, 27, 177, 42, 49] =
   [244, 87, 153, 210, 13, 39, 220, 70, 92, 216, 245, 60, 210, 221, 31, 5, 73, 86, 50,
   111]"
  by (simp add: sha1_eval del: schedule.simps(2) rounds.simps(2))

lemma utf8_long_key:
  "utf8 (lit ''hi'') =
   [104, 105]"
  by (simp add: utf8_def encode_char_def lit_def)

lemma hmac_sha1_long_key:
  "hmac sha1 64 (ascii ''0123456789012345678901234567890123456789012345678901234567890123456789'')
     (utf8 (lit ''hi'')) =
   [244, 87, 153, 210, 13, 39, 220, 70, 92, 216, 245, 60, 210, 221, 31, 5, 73, 86, 50,
   111]"
  by (simp add: utf8_long_key)
    (simp add: hmac_def Let_def ascii_def replicate_numeral sha1_long_key_key sha1_long_key_inner sha1_long_key_outer)

lemma b64encode_long_key:
  "b64encode
     [244, 87, 153, 210, 13, 39, 220, 70, 92, 216, 245, 60, 210, 221, 31, 5, 73, 86, 50,
     111] =
   ascii ''9FeZ0g0n3EZc2PU80t0fBUlWMm8=''"
  by (simp add: ascii_def b64_char_def b64_alphabet_def b64_pad_def)

text \<open>
  C1, as the claim states it, at a message that ends in the lone surrogate U+D800: it has
  no UTF-8 encoding, and \<open>_sign\<close> returns no signature but raises \<open>UnicodeEncodeError\<close>.
\<close>

theorem sign_raises_on_lone_surrogate:
  "sign example_console (lit ''GET'' @ [0xD800])
     = Inl (UnicodeEncodeError (lit ''GET'' @ [0xD800]))"
  by (simp add: sign_def encode_def encodable_def is_surrogate_def lit_def)

text \<open>
  C1, amended. For every secret and every message that has a UTF-8 encoding, that is,
  holds no surrogate, \<open>_sign\<close> returns the base64 encoding (standard alphabet, with
  padding) of the HMAC-SHA1 digest, keyed by the secret, of the UTF-8 encoding of the
  message; on any other message it raises \<open>UnicodeEncodeError\<close>. The result depends on
  nothing but the secret and the message. A signature has 28 characters of the alphabet
  or the padding sign. For the secret \<open>b"abc"\<close> and the message of the example it is the
  base64 encoding of that digest, the 28 bytes \<open>8S69fcB2EildD0mQCKRZbKY9ank=\<close>; the
  signatures of a message with characters of two, three and four bytes, and under a key
  longer than a block, are those that Python computes.
\<close>

theorem sign_is_base64_hmac_sha1:
  "sign self message
     = (if encodable message
        then Inr (b64encode (hmac sha1 64 (access_secret self) (utf8 message)))
        else Inl (UnicodeEncodeError message))
   \<and> encodable message = (\<not> list_ex (\<lambda>c. 0xD800 \<le> c \<and> c \<le> 0xDFFF) message)
   \<and> encodable [0xD7FF, 0xE000]
   \<and> sign self [0xDFFF] = Inl (UnicodeEncodeError [0xDFFF])
   \<and> sign (self\<lparr>console.access_key := k, host := h, signature_version := v\<rparr>) message
       = sign self message
   \<and> length (b64encode (hmac sha1 64 key msg)) = 28
   \<and> set (b64encode (hmac sha1 64 key msg)) \<subseteq> set (ascii b64_alphabet) \<union> {b64_pad}
   \<and> utf8 (lit ''GET\<newline>/v1/projects\<newline>K1\<newline>1\<newline>1000.0'')
       = ascii ''GET\<newline>/v1/projects\<newline>K1\<newline>1\<newline>1000.0''
   \<and> utf8 [0xE9, 0x20AC, 0x1F600] = [0xC3, 0xA9, 0xE2, 0x82, 0xAC, 0xF0, 0x9F, 0x98, 0x80]
   \<and> utf8 [0x7F, 0x80, 0x7FF, 0x800, 0xD7FF, 0xE000, 0xFFFF, 0x10000, 0x10FFFF]
       = [0x7F, 0xC2, 0x80, 0xDF, 0xBF, 0xE0, 0xA0, 0x80, 0xED, 0x9F, 0xBF, 0xEE, 0x80, 0x80,
          0xEF, 0xBF, 0xBF, 0xF0, 0x90, 0x80, 0x80, 0xF4, 0x8F, 0xBF, 0xBF]
   \<and> sign (ACRCloudConsole (lit ''K1'') (ascii ''abc''))
         (lit ''GET\<newline>/v1/projects\<newline>K1\<newline>1\<newline>1000.0'')
       = Inr (b64encode (hmac sha1 64 (ascii ''abc'')
           (ascii ''GET\<newline>/v1/projects\<newline>K1\<newline>1\<newline>1000.0'')))
   \<and> sign (ACRCloudConsole (lit ''K1'') (ascii ''abc''))
         (lit ''GET\<newline>/v1/projects\<newline>K1\<newline>1\<newline>1000.0'')
       = Inr (ascii ''8S69fcB2EildD0mQCKRZbKY9ank='')
   \<and> sign (ACRCloudConsole (lit ''K1'') (ascii ''abc'')) [0xE9, 0x20AC, 0x1F600]
       = Inr (ascii ''GAN5Cmd8Ry7g5EV1mdOPzkhBWxI='')
   \<and> sign (ACRCloudConsole (lit ''K1'')
               (ascii ''0123456789012345678901234567890123456789012345678901234567890123456789''))
         (lit ''hi'')
       = Inr (ascii ''9FeZ0g0n3EZc2PU80t0fBUlWMm8='')"
proof -
  have general: "sign c s
     = (if encodable s then Inr (b64encode (hmac sha1 64 (access_secret c) (utf8 s)))
        else Inl (UnicodeEncodeError s))" for c s
    by (simp add: sign_def encode_def hmac_sha1_def)
  have secret: "access_secret (ACRCloudConsole a b) = b" for a b
    by (simp add: ACRCloudConsole_def)
  have u1: "utf8 (lit ''GET\<newline>/v1/projects\<newline>K1\<newline>1\<newline>1000.0'')
       = ascii ''GET\<newline>/v1/projects\<newline>K1\<newline>1\<newline>1000.0''"
    by (simp add: utf8_def encode_char_def lit_def ascii_def)
  have u2: "utf8 [0xE9, 0x20AC, 0x1F600] = [0xC3, 0xA9, 0xE2, 0x82, 0xAC, 0xF0, 0x9F, 0x98, 0x80]"
    by (simp add: utf8_def encode_char_def)
  have u3: "utf8 [0x7F, 0x80, 0x7FF, 0x800, 0xD7FF, 0xE000, 0xFFFF, 0x10000, 0x10FFFF]
       = [0x7F, 0xC2, 0x80, 0xDF, 0xBF, 0xE0, 0xA0, 0x80, 0xED, 0x9F, 0xBF, 0xEE, 0x80, 0x80,
          0xEF, 0xBF, 0xBF, 0xF0, 0x90, 0x80, 0x80, 0xF4, 0x8F, 0xBF, 0xBF]"
    by (simp add: utf8_def encode_char_def)
  have e2: "encodable [0xE9, 0x20AC, 0x1F600]"
    by (simp add: encodable_def is_surrogate_def)
  have s1: "sign (ACRCloudConsole (lit ''K1'') (ascii ''abc''))
         (lit ''GET\<newline>/v1/projects\<newline>K1\<newline>1\<newline>1000.0'')
       = Inr (b64encode (hmac sha1 64 (ascii ''abc'')
           (ascii ''GET\<newline>/v1/projects\<newline>K1\<newline>1\<newline>1000.0'')))"
    by (simp only: general encodable_lit if_True secret u1)
  have s2: "sign (ACRCloudConsole (lit ''K1'') (ascii ''abc''))
         (lit ''GET\<newline>/v1/projects\<newline>K1\<newline>1\<newline>1000.0'')
       = Inr (ascii ''8S69fcB2EildD0mQCKRZbKY9ank='')"
    by (simp only: general encodable_lit if_True secret hmac_sha1_ascii b64encode_ascii)
  have s3: "sign (ACRCloudConsole (lit ''K1'') (ascii ''abc'')) [0xE9, 0x20AC, 0x1F600]
       = Inr (ascii ''GAN5Cmd8Ry7g5EV1mdOPzkhBWxI='')"
    by (simp only: general e2 if_True secret hmac_sha1_wide b64encode_wide)
  have s4: "sign (ACRCloudConsole (lit ''K1'')
               (ascii ''0123456789012345678901234567890123456789012345678901234567890123456789''))
         (lit ''hi'')
       = Inr (ascii ''9FeZ0g0n3EZc2PU80t0fBUlWMm8='')"
    by (simp only: general encodable_lit if_True secret hmac_sha1_long_key b64encode_long_key)
  have d: "sign (self\<lparr>console.access_key := k, host := h, signature_version := v\<rparr>) message
       = sign self message"
    by (simp add: general)
  have a: "encodable message = (\<not> list_ex (\<lambda>c. 0xD800 \<le> c \<and> c \<le> 0xDFFF) message)"
    by (simp add: encodable_def is_surrogate_def [abs_def])
  have b1: "encodable [0xD7FF, 0xE000]"
    by (simp add: encodable_def is_surrogate_def)
  have b2: "sign self [0xDFFF] = Inl (UnicodeEncodeError [0xDFFF])"
    by (simp add: general encodable_def is_surrogate_def)
  from general [of self message] a b1 b2 d length_signature [of key msg]
    b64encode_alphabet [of "hmac sha1 64 key msg"] u1 u2 u3 s1 s2 s3 s4
  show ?thesis
    by (intro conjI)
qed

section \<open>The requests\<close>

lemmas console_runs = add_project_run update_project_run delete_project_run get_project_run
  list_projects_run add_monitor_run update_monitor_run get_all_monitors_run get_monitor_run
  delete_monitor_run action_monitor_run

lemma default_buckets_fit:
  "json_fits max_digits (JList [JDict [(lit ''name'', JStr (lit ''ACRCloud Music''))]])"
  by simp

lemma default_buckets_text:
  \<open>json_dumps max_digits (JList [JDict [(lit ''name'', JStr (lit ''ACRCloud Music''))]])
     = Inr (lit ''[{"name": "ACRCloud Music"}]'')\<close>
  by (simp add: json_dumps_def json_string_def json_escape_char_def lit_def)

text \<open>
  \<open>json.dumps\<close> on a value with every kind of escape: the quote, the backslash, the
  newline, U+007F, U+00E9, U+20AC and, as a surrogate pair, U+1F600.
\<close>

lemma json_dumps_example:
  \<open>json_dumps 4300
     (JList [JDict [(lit ''id'', JInt 3),
                    (lit ''name'', JStr [0x61, 0x22, 0x62, 0x5C, 0x63, 0x0A, 0x7F, 0xE9,
                                         0x20AC, 0x1F600])],
             JNull, JBool True, JList [], JDict []])
   = Inr (lit (''[{"id": 3, "name": "a'' @ [CHR 0x5C] @ ''"b'' @ [CHR 0x5C, CHR 0x5C] @ ''c''
          @ [CHR 0x5C] @ ''n'' @ [CHR 0x5C] @ ''u007f'' @ [CHR 0x5C] @ ''u00e9'' @ [CHR 0x5C]
          @ ''u20ac'' @ [CHR 0x5C] @ ''ud83d'' @ [CHR 0x5C] @ ''ude00"}, null, true, [], {}]''))\<close>
  by (simp add: json_dumps_def digits_refused_def json_string_def json_escape_char_def
      u_escape_def hex_digit_def int_text_def decimal.simps lit_def)

text \<open>
  C2. In every signed operation of the console the signature is taken over the method,
  the path, the access key, the signature version and the timestamp joined by single
  newlines in that order, and the timestamp in that string is the one sent as the
  \<open>timestamp\<close> header: with \<open>now\<close> the clock's reading at the call, the headers of the
  one request issued are those signed for the operation's method and path at \<open>now\<close>.
  No request is issued when the string cannot be signed or, for the two operations that
  send \<open>buckets\<close>, when \<open>json.dumps\<close> refuses an integer.
\<close>

theorem signed_string_is_canonical:
  "canonical_string m u key ver ts = join (lit ''\<newline>'') [m, u, key, ver, ts]
   \<and> map_of (signed_headers self hm u now) ''signature''
       = Some (HBytes (b64encode (hmac sha1 64 (access_secret self)
           (utf8 (join (lit ''\<newline>'')
              [lit hm, u, console.access_key self, signature_version self, lit now])))))
   \<and> map_of (signed_headers self hm u now) ''timestamp'' = Some (HStr (lit now))
   \<and> sign self (join (lit ''\<newline>'')
         [lit hm, u, console.access_key self, signature_version self, lit now])
       = (if signable self u then
            Inr (b64encode (hmac sha1 64 (access_secret self)
              (utf8 (join (lit ''\<newline>'')
                 [lit hm, u, console.access_key self, signature_version self, lit now]))))
          else
            Inl (UnicodeEncodeError (join (lit ''\<newline>'')
              [lit hm, u, console.access_key self, signature_version self, lit now])))
   \<and> (let now = clock w (reads w); fits = json_fits (int_max_str_digits w) in
       map rq_headers (issued (add_project self p t b a e r) w)
         = (if signable self (lit ''/v1/projects'')
               \<and> fits (JList (default [JDict [(lit ''name'', JStr (lit ''ACRCloud Music''))]] b))
            then [Some (signed_headers self ''POST'' (lit ''/v1/projects'') now)] else [])
       \<and> map rq_headers (issued (update_project self p b) w)
         = (if signable self (lit ''/v1/projects/'' @ p)
               \<and> fits (JList (default [JDict [(lit ''name'', JStr (lit ''ACRCloud Music''))]] b))
            then [Some (signed_headers self ''POST'' (lit ''/v1/projects/'' @ p) now)] else [])
       \<and> map rq_headers (issued (delete_project self p) w)
         = (if signable self (lit ''/v1/projects/'' @ p)
            then [Some (signed_headers self ''DELETE'' (lit ''/v1/projects/'' @ p) now)] else [])
       \<and> map rq_headers (issued (get_project self p) w)
         = (if signable self (lit ''/v1/projects/'' @ p)
            then [Some (signed_headers self ''GET'' (lit ''/v1/projects/'' @ p) now)] else [])
       \<and> map rq_headers (issued (list_projects self) w)
         = (if signable self (lit ''/v1/projects'')
            then [Some (signed_headers self ''GET'' (lit ''/v1/projects'') now)] else [])
       \<and> map rq_headers (issued (add_monitor self p sn url r rt rc) w)
         = (if signable self (lit ''/v1/monitor-streams'')
            then [Some (signed_headers self ''POST'' (lit ''/v1/monitor-streams'') now)] else [])
       \<and> map rq_headers (issued (update_monitor self sid sn url r rt rc) w)
         = (if signable self (lit ''/v1/monitor-streams/'' @ sid)
            then [Some (signed_headers self ''PUT'' (lit ''/v1/monitor-streams/'' @ sid) now)]
            else [])
       \<and> map rq_headers (issued (get_all_monitors self p) w)
         = (if signable self (lit ''/v1/monitor-streams'')
            then [Some (signed_headers self ''GET'' (lit ''/v1/monitor-streams'') now)] else [])
       \<and> map rq_headers (issued (get_monitor self sid) w)
         = (if signable self (lit ''/v1/monitor-streams/'' @ sid)
            then [Some (signed_headers self ''GET'' (lit ''/v1/monitor-streams/'' @ sid) now)]
            else [])
       \<and> map rq_headers (issued (delete_monitor self sid) w)
         = (if signable self (lit ''/v1/monitor-streams/'' @ sid)
            then [Some (signed_headers self ''DELETE'' (lit ''/v1/monitor-streams/'' @ sid) now)]
            else [])
       \<and> map rq_headers (issued (action_monitor self sid action) w)
         = (if signable self (lit ''/v1/monitor-streams/'' @ sid @ lit ''/'' @ action)
            then [Some (signed_headers self ''PUT''
                         (lit ''/v1/monitor-streams/'' @ sid @ lit ''/'' @ action) now)]
            else []))"
proof -
  have 1: "canonical_string m u key ver ts = join (lit ''\<newline>'') [m, u, key, ver, ts]"
    by (simp add: canonical_string_def)
  have 2: "map_of (signed_headers self hm u now) ''signature''
       = Some (HBytes (b64encode (hmac sha1 64 (access_secret self)
           (utf8 (join (lit ''\<newline>'')
              [lit hm, u, console.access_key self, signature_version self, lit now])))))"
    by (simp add: signed_headers_def canonical_string_def)
  have 3: "map_of (signed_headers self hm u now) ''timestamp'' = Some (HStr (lit now))"
    by (simp add: signed_headers_def)
  have 4: "sign self (join (lit ''\<newline>'')
         [lit hm, u, console.access_key self, signature_version self, lit now])
       = (if signable self u then
            Inr (b64encode (hmac sha1 64 (access_secret self)
              (utf8 (join (lit ''\<newline>'')
                 [lit hm, u, console.access_key self, signature_version self, lit now]))))
          else
            Inl (UnicodeEncodeError (join (lit ''\<newline>'')
              [lit hm, u, console.access_key self, signature_version self, lit now])))"
    unfolding join_canonical by (rule sign_canonical)
  show ?thesis
    unfolding Let_def
    apply (intro conjI)
    apply (rule 1)
    apply (rule 2)
    apply (rule 3)
    apply (rule 4)
    apply (simp_all add: issued_def console_runs signed_call_def Let_def json_dumps_def
        split: sum.splits)
    done
qed

text \<open>
  Ten of the eleven operations issue the request with the verb whose name they sign.
\<close>

lemma siblings_issue_the_signed_verb:
  "(let fits = json_fits (int_max_str_digits w) in
     map (verb_name \<circ> rq_verb) (issued (add_project self p t b a e r) w)
       = (if signable self (lit ''/v1/projects'')
             \<and> fits (JList (default [JDict [(lit ''name'', JStr (lit ''ACRCloud Music''))]] b))
          then [''POST''] else [])
     \<and> map (verb_name \<circ> rq_verb) (issued (update_project self p b) w)
       = (if signable self (lit ''/v1/projects/'' @ p)
             \<and> fits (JList (default [JDict [(lit ''name'', JStr (lit ''ACRCloud Music''))]] b))
          then [''POST''] else [])
     \<and> map (verb_name \<circ> rq_verb) (issued (delete_project self p) w)
       = (if signable self (lit ''/v1/projects/'' @ p) then [''DELETE''] else [])
     \<and> map (verb_name \<circ> rq_verb) (issued (get_project self p) w)
       = (if signable self (lit ''/v1/projects/'' @ p) then [''GET''] else [])
     \<and> map (verb_name \<circ> rq_verb) (issued (list_projects self) w)
       = (if signable self (lit ''/v1/projects'') then [''GET''] else [])
     \<and> map (verb_name \<circ> rq_verb) (issued (add_monitor self p sn url r rt rc) w)
       = (if signable self (lit ''/v1/monitor-streams'') then [''POST''] else [])
     \<and> map (verb_name \<circ> rq_verb) (issued (update_monitor self sid sn url r rt rc) w)
       = (if signable self (lit ''/v1/monitor-streams/'' @ sid) then [''PUT''] else [])
     \<and> map (verb_name \<circ> rq_verb) (issued (get_monitor self sid) w)
       = (if signable self (lit ''/v1/monitor-streams/'' @ sid) then [''GET''] else [])
     \<and> map (verb_name \<circ> rq_verb) (issued (delete_monitor self sid) w)
       = (if signable self (lit ''/v1/monitor-streams/'' @ sid) then [''DELETE''] else [])
     \<and> map (verb_name \<circ> rq_verb) (issued (action_monitor self sid action) w)
       = (if signable self (lit ''/v1/monitor-streams/'' @ sid @ lit ''/'' @ action)
          then [''PUT''] else []))"
  by (simp add: issued_def console_runs signed_call_def Let_def json_dumps_def
      split: sum.splits)

text \<open>
  C3. \<open>get_all_monitors\<close> signs the method GET and issues its one HTTP call with PUT,
  for every console, project name and world in which the call can be signed; so at the
  example console.
\<close>

theorem get_all_monitors_signs_get_issues_put:
  "map rq_verb (issued (get_all_monitors self p) w)
     = (if signable self (lit ''/v1/monitor-streams'') then [PUT] else [])
   \<and> map rq_headers (issued (get_all_monitors self p) w)
     = (if signable self (lit ''/v1/monitor-streams'')
        then [Some (signed_headers self ''GET'' (lit ''/v1/monitor-streams'')
                     (clock w (reads w)))]
        else [])
   \<and> verb_name PUT \<noteq> ''GET''
   \<and> map rq_verb (issued (get_all_monitors example_console (lit ''p'')) example_world) = [PUT]
   \<and> map rq_headers (issued (get_all_monitors example_console (lit ''p'')) example_world)
     = [Some (signed_headers example_console ''GET'' (lit ''/v1/monitor-streams'') ''1000.0'')]"
proof -
  have "signable example_console u = encodable u" for u
    by (simp add: signable_def example_console_def ACRCloudConsole_def encodable_lit)
  then have "signable example_console (lit ''/v1/monitor-streams'')"
    by (simp add: encodable_lit)
  then show ?thesis
    by (simp add: issued_def get_all_monitors_run signed_call_def Let_def example_world_def)
qed

lemma signable_example_console: "signable example_console u = encodable u"
  by (simp add: signable_def example_console_def ACRCloudConsole_def encodable_lit)

text \<open>
  C4, as the claim states it, at the example console: the \<open>buckets\<close> field that
  \<open>add_project\<close> sends by default is not the text without a space after the colon.
\<close>

theorem default_buckets_not_compact:
  \<open>map (form_field ''buckets'')
       (issued (add_project example_console (lit ''p'') None None None None None)
          example_world)
     \<noteq> [Some (FStr (lit ''[{"name":"ACRCloud Music"}]''))]\<close>
  by (simp add: issued_def add_project_run signed_call_def Let_def form_field_def default_def
      signable_example_console encodable_lit example_world_def default_buckets_text)
    (simp add: lit_def)

text \<open>
  C4, amended. When the argument is left out, \<open>add_project\<close> sends the type
  \<open>BM-ACRC\<close>, the audio type 2, the region \<open>ap-southeast-1\<close> and, as \<open>buckets\<close>, what
  \<open>json.dumps\<close> makes of the default list: the text \<open>[{"name": "ACRCloud Music"}]\<close>, with
  a space after the colon. \<open>add_monitor\<close> sends \<open>realtime\<close> 1 and \<open>record\<close> 0. This holds
  of the one request of every call that sends one, and the example call sends exactly
  the six defaults.
\<close>

theorem defaults_sent:
  \<open>(let sends = signable self (lit ''/v1/projects'')
                  \<and> json_fits (int_max_str_digits w)
                        (JList (default [JDict [(lit ''name'', JStr (lit ''ACRCloud Music''))]] b)) in
      map (form_field ''type'') (issued (add_project self p None b a e r) w)
        = (if sends then [Some (FStr (lit ''BM-ACRC''))] else [])
      \<and> map (form_field ''audio_type'') (issued (add_project self p t b None e r) w)
        = (if sends then [Some (FInt 2)] else [])
      \<and> map (form_field ''region'') (issued (add_project self p t b a e None) w)
        = (if sends then [Some (FStr (lit ''ap-southeast-1''))] else []))
   \<and> map (form_field ''buckets'') (issued (add_project self p t None a e r) w)
     = (if signable self (lit ''/v1/projects'')
        then [Some (FStr (lit ''[{"name": "ACRCloud Music"}]''))] else [])
   \<and> map (form_field ''realtime'') (issued (add_monitor self p sn u mr None rc) w)
     = (if signable self (lit ''/v1/monitor-streams'') then [Some (FInt 1)] else [])
   \<and> map (form_field ''record'') (issued (add_monitor self p sn u mr rt None) w)
     = (if signable self (lit ''/v1/monitor-streams'') then [Some (FInt 0)] else [])
   \<and> map rq_data
         (issued (add_project example_console (lit ''p'') None None None None None)
            example_world)
     = [Some [(''name'', FStr (lit ''p'')), (''region'', FStr (lit ''ap-southeast-1'')),
              (''type'', FStr (lit ''BM-ACRC'')),
              (''buckets'', FStr (lit ''[{"name": "ACRCloud Music"}]'')),
              (''audio_type'', FInt 2), (''external_id'', FStr [])]]
   \<and> map rq_data
         (issued (add_monitor example_console (lit ''p'') (lit ''96fm'') (lit ''http://x/y.mp3'')
                    None None None)
            example_world)
     = [Some [(''project_name'', FStr (lit ''p'')), (''stream_name'', FStr (lit ''96fm'')),
              (''url'', FStr (lit ''http://x/y.mp3'')),
              (''region'', FStr (lit ''ap-southeast-1'')), (''realtime'', FInt 1),
              (''record'', FInt 0)]]\<close>
  by (simp add: issued_def add_project_run add_monitor_run signed_call_def Let_def
      form_field_def default_def json_dumps_def default_buckets_fit
      signable_example_console encodable_lit example_world_def split: sum.splits)
    (simp add: json_string_def json_escape_char_def lit_def)

text \<open>
  C5. \<open>pause_monitor\<close> and \<open>restart_monitor\<close> are \<open>action_monitor\<close> with the action
  \<open>pause\<close> and \<open>restart\<close>: the same call in the same world, so the same request and the
  same returned value; and whatever the times of the two calls, the requests agree in the
  method PUT, the path, and every header but \<open>timestamp\<close> and \<open>signature\<close>.
\<close>

theorem pause_restart_are_action_monitor:
  "pause_monitor self sid w = action_monitor self sid (lit ''pause'') w
   \<and> restart_monitor self sid w = action_monitor self sid (lit ''restart'') w
   \<and> map without_time_headers (issued (pause_monitor self sid) w)
       = map without_time_headers (issued (action_monitor self sid (lit ''pause'')) w')
   \<and> map without_time_headers (issued (restart_monitor self sid) w)
       = map without_time_headers (issued (action_monitor self sid (lit ''restart'')) w')
   \<and> map without_time_headers (issued (action_monitor self sid action) w)
       = (if signable self (lit ''/v1/monitor-streams/'' @ sid @ lit ''/'' @ action) then
            [\<lparr>rq_verb = PUT,
              rq_url = lit ''https://'' @ host self @ lit ''/v1/monitor-streams/'' @ sid
                       @ lit ''/'' @ action,
              rq_data = None,
              rq_headers = Some [(''access-key'', HStr (console.access_key self)),
                                 (''signature-version'', HStr (signature_version self))],
              rq_verify = True\<rparr>]
          else [])
   \<and> map without_time_headers (issued (pause_monitor example_console (lit ''11396'')) example_world)
       = [\<lparr>rq_verb = PUT,
           rq_url = lit ''https://api.acrcloud.com/v1/monitor-streams/11396/pause'',
           rq_data = None,
           rq_headers = Some [(''access-key'', HStr (lit ''K1'')),
                              (''signature-version'', HStr (lit ''1''))],
           rq_verify = True\<rparr>]"
proof -
  have p: "pause_monitor self' sid' = action_monitor self' sid' (lit ''pause'')" for self' sid'
    by (rule ext) (simp add: pause_monitor_def)
  have r: "restart_monitor self sid = action_monitor self sid (lit ''restart'')"
    by (rule ext) (simp add: restart_monitor_def)
  have a: "map without_time_headers (issued (action_monitor self' sid' action') w'')
       = (if signable self' (lit ''/v1/monitor-streams/'' @ sid' @ lit ''/'' @ action') then
            [\<lparr>rq_verb = PUT,
              rq_url = lit ''https://'' @ host self' @ lit ''/v1/monitor-streams/'' @ sid'
                       @ lit ''/'' @ action',
              rq_data = None,
              rq_headers = Some [(''access-key'', HStr (console.access_key self')),
                                 (''signature-version'', HStr (signature_version self'))],
              rq_verify = True\<rparr>]
          else [])" for self' sid' action' w''
    by (simp add: issued_def action_monitor_run signed_call_def Let_def
        without_time_headers_def signed_headers_def)
  have e: "signable example_console (lit ''/v1/monitor-streams/'' @ lit ''11396'' @ lit ''/''
        @ lit ''pause'')"
    by (simp add: signable_example_console encodable_append encodable_lit)
  show ?thesis
    unfolding p r a
    using e by (simp add: example_console_def ACRCloudConsole_def lit_def)
qed

text \<open>
  C6. \<open>period_results\<close> without an end time is \<open>period_results\<close> with the empty string:
  one GET whose query ends in \<open>&end_time=\<close>.
\<close>

theorem period_results_default_end_time:
  "period_results self begin_time None w = period_results self begin_time (Some []) w
   \<and> period_results self begin_time None
       = plain_get
           (lit ''https://api.acrcloud.com/v1/monitor-streams/'' @ stream_id self
            @ lit ''/results?access_key='' @ monitor.access_key self
            @ lit ''&begin_time='' @ begin_time @ lit ''&end_time='')
   \<and> map rq_url (issued (period_results example_monitor (lit ''20200101000000'') None)
                     example_world)
       = [lit (''https://api.acrcloud.com/v1/monitor-streams/11396/results?access_key=K2''
               @ ''&begin_time=20200101000000&end_time='')]"
  by (simp add: period_results_run default_def issued_plain_get)
    (simp add: example_monitor_def ACRCloudStreamMonitor_def lit_def)

text \<open>
  C8. \<open>month_results\<close> is one GET of the archive URL on the host
  \<open>monitoring-result.acrcloud.com\<close>; what the transport answers is returned as it is, the
  content not decoded.
\<close>

theorem month_results_archive:
  "issued (month_results self month) w
     = [\<lparr>rq_verb = GET,
         rq_url = lit ''https://monitoring-result.acrcloud.com/'' @ monitor.access_key self
                  @ lit ''/'' @ stream_id self @ lit ''/'' @ month @ lit ''.zip'',
         rq_data = None, rq_headers = None, rq_verify = True\<rparr>]
   \<and> fst (month_results self month w)
     = transport w (sent w)
         \<lparr>rq_verb = GET,
          rq_url = lit ''https://monitoring-result.acrcloud.com/'' @ monitor.access_key self
                   @ lit ''/'' @ stream_id self @ lit ''/'' @ month @ lit ''.zip'',
          rq_data = None, rq_headers = None, rq_verify = True\<rparr>
   \<and> fst (month_results self month (w\<lparr>transport := \<lambda>before rq. Inr response\<rparr>))
     = Inr response
   \<and> map rq_url (issued (month_results example_monitor (lit ''202001'')) example_world)
     = [lit ''https://monitoring-result.acrcloud.com/K2/11396/202001.zip'']"
  by (simp add: month_results_run issued_def Let_def)
    (simp add: example_monitor_def ACRCloudStreamMonitor_def lit_def)

text \<open>Formatting the limit, and the limits that the example world refuses.\<close>

lemma format_int_PyInt:
  "format_int max_digits (PyInt i)
     = (if digits_refused max_digits i then Inl ValueError else Inr (int_text i))"
  by (simp add: str_int_def)

lemma refused_examples:
  "digits_refused 4300 (10 ^ 4300)"
  "digits_refused 4300 (- (10 ^ 4300))"
  "digits_refused 4300 (10 ^ 5000)"
proof -
  show "digits_refused 4300 (10 ^ 4300)"
    by (rule digits_refused_over_limit) (simp_all only: zero_less_numeral abs_ge_self)
  have "(10 :: int) ^ 4300 \<le> \<bar>- (10 ^ 4300)\<bar>"
    by (simp only: abs_minus_cancel abs_ge_self)
  then show "digits_refused 4300 (- (10 ^ 4300))"
    by (rule digits_refused_over_limit [rotated]) (simp only: zero_less_numeral)
  have "(4300 :: nat) \<le> 5000"
    by simp
  then have "(10 :: int) ^ 4300 \<le> 10 ^ 5000"
    by (rule power_increasing) (simp only: one_le_numeral)
  also have "\<dots> \<le> \<bar>10 ^ 5000\<bar>"
    by (rule abs_ge_self)
  finally show "digits_refused 4300 (10 ^ 5000)"
    by (rule digits_refused_over_limit [rotated]) (simp only: zero_less_numeral)
qed

lemma int_text_examples:
  "int_text 50 = lit ''50''"
  "int_text 100 = lit ''100''"
  "int_text 7 = lit ''7''"
  "int_text 0 = lit ''0''"
  "int_text (- 5) = lit ''-5''"
  "int_text 1000 = lit ''1000''"
  by (simp_all add: int_text_def decimal.simps lit_def)

lemma accepted_examples:
  "\<not> digits_refused 4300 50"
  "\<not> digits_refused 4300 100"
  "\<not> digits_refused 4300 7"
  "\<not> digits_refused 4300 0"
  "\<not> digits_refused 4300 (- 5)"
  "\<not> digits_refused 4300 1000"
  by (simp_all add: digits_refused_def decimal.simps)

lemma lit_append: "lit a @ lit b = lit (a @ b)"
  by (simp add: lit_def)

lemma example_limit: "int_max_str_digits example_world = 4300"
  by (simp add: example_world_def)

text \<open>A number of exactly 4300 digits is written, and the GET is issued.\<close>

lemma accepted_boundary: "\<not> digits_refused 4300 (10 ^ 4299)"
proof -
  have "(4299 :: nat) < 4300"
    by simp
  then have "(10 :: nat) ^ 4299 < 10 ^ 4300"
    by (rule power_strict_increasing) (simp only: one_less_numeral_iff Num.num.simps semiring_norm)
  then have "length (decimal (10 ^ 4299)) \<le> 4300"
    by (rule length_decimal_le [rotated]) (simp only: zero_less_numeral)
  then have "\<not> 4300 < length (decimal (nat \<bar>(10 :: int) ^ 4299\<bar>))"
    by (simp only: nat_abs_power_10 not_less)
  then show ?thesis
    by (simp only: digits_refused_def simp_thms)
qed

lemma issued_multiple_last_results:
  "issued (multiple_last_results m (PyInt i)) w
     = (if digits_refused (int_max_str_digits w) i then []
        else [\<lparr>rq_verb = GET,
               rq_url = lit ''https://api.acrcloud.com/v1/monitor-streams/'' @ stream_id m
                        @ lit ''/results?access_key='' @ monitor.access_key m
                        @ lit ''&limit='' @ int_text i,
               rq_data = None, rq_headers = None, rq_verify = True\<rparr>])"
  by (simp add: issued_def multiple_last_results_run str_int_def plain_get_def Let_def)

lemma boundary_issued:
  "length (issued (multiple_last_results example_monitor (PyInt (10 ^ 4299))) example_world) = 1"
  by (simp only: issued_multiple_last_results example_limit accepted_boundary if_False
      list.size One_nat_def add_0)

text \<open>
  C7, as the claim states it, at the limit \<open>10 ^ 4300\<close>, a number of 4301 digits, in the
  example world: \<open>multiple_last_results\<close> raises \<open>ValueError\<close> and issues no GET.
\<close>

theorem multiple_last_results_refuses_long_limit:
  "multiple_last_results example_monitor (PyInt (10 ^ 4300)) example_world
     = (Inl ValueError, example_world)
   \<and> issued (multiple_last_results example_monitor (PyInt (10 ^ 4300))) example_world = []"
proof -
  have "multiple_last_results example_monitor (PyInt (10 ^ 4300)) example_world
     = (Inl ValueError, example_world)"
    by (simp only: multiple_last_results_run example_limit format_int_PyInt
        refused_examples if_True sum.case)
  then show ?thesis
    by (simp only: issued_def snd_conv drop_all order_refl list.size simp_thms)
qed

text \<open>
  C7, amended. Each text retrieval other than \<open>month_results\<close> is one GET of the results
  URL of the stream with the access key as the first query parameter, followed by
  nothing, by \<open>type=current\<close>, by the limit, by the date, or by the begin and end time, and
  returns the body decoded as UTF-8; the limit is written as \<open>str\<close> writes it, in decimal
  (or \<open>True\<close> or \<open>False\<close>), and when the interpreter refuses to write it, because it has
  more digits than the interpreter allows, \<open>ValueError\<close> is raised and nothing is sent.
\<close>

theorem results_urls:
  "last_results self
     = plain_get
         (lit ''https://api.acrcloud.com/v1/monitor-streams/'' @ stream_id self
          @ lit ''/results?access_key='' @ monitor.access_key self)
   \<and> current_results self
     = plain_get
         (lit ''https://api.acrcloud.com/v1/monitor-streams/'' @ stream_id self
          @ lit ''/results?access_key='' @ monitor.access_key self
          @ lit ''&type=current'')
   \<and> multiple_last_results self limit w
     = (case format_int (int_max_str_digits w) limit of
          Inl e \<Rightarrow> (Inl e, w)
        | Inr limit_text \<Rightarrow>
            plain_get
              (lit ''https://api.acrcloud.com/v1/monitor-streams/'' @ stream_id self
          @ lit ''/results?access_key='' @ monitor.access_key self
               @ lit ''&limit='' @ limit_text) w)
   \<and> format_int max_digits (PyInt i)
     = (if 0 < max_digits \<and> max_digits < length (decimal (nat \<bar>i\<bar>)) then Inl ValueError
        else Inr ((if i < 0 then lit ''-'' else []) @ decimal (nat \<bar>i\<bar>)))
   \<and> format_int max_digits (PyBool b) = Inr (if b then lit ''True'' else lit ''False'')
   \<and> decimal_value (decimal n) = n
   \<and> set (decimal n) \<subseteq> {48..57}
   \<and> day_results self date
     = plain_get
         (lit ''https://api.acrcloud.com/v1/monitor-streams/'' @ stream_id self
          @ lit ''/results?access_key='' @ monitor.access_key self
          @ lit ''&date='' @ date)
   \<and> period_results self begin_time end_time
     = plain_get
         (lit ''https://api.acrcloud.com/v1/monitor-streams/'' @ stream_id self
          @ lit ''/results?access_key='' @ monitor.access_key self
          @ lit ''&begin_time='' @ begin_time @ lit ''&end_time='' @ default [] end_time)
   \<and> issued (plain_get url) w
     = [\<lparr>rq_verb = GET, rq_url = url, rq_data = None, rq_headers = None, rq_verify = True\<rparr>]
   \<and> fst (plain_get url (w\<lparr>transport := \<lambda>before rq. Inr response\<rparr>))
     = Inr (Decode (Some (lit ''utf-8'')) (content response))
   \<and> map rq_url (issued (multiple_last_results example_monitor (PyInt 50)) example_world)
     = [lit ''https://api.acrcloud.com/v1/monitor-streams/11396/results?access_key=K2&limit=50'']
   \<and> map rq_url (issued (multiple_last_results example_monitor (PyInt 100)) example_world)
     = [lit ''https://api.acrcloud.com/v1/monitor-streams/11396/results?access_key=K2&limit=100'']
   \<and> map rq_url (issued (multiple_last_results example_monitor (PyBool True)) example_world)
     = [lit ''https://api.acrcloud.com/v1/monitor-streams/11396/results?access_key=K2&limit=True'']
   \<and> map rq_url (issued (day_results example_monitor (lit ''20200131'')) example_world)
     = [lit ''https://api.acrcloud.com/v1/monitor-streams/11396/results?access_key=K2&date=20200131'']
   \<and> map rq_url (issued (current_results example_monitor) example_world)
     = [lit ''https://api.acrcloud.com/v1/monitor-streams/11396/results?access_key=K2&type=current'']
   \<and> length (issued (multiple_last_results example_monitor (PyInt (10 ^ 4299))) example_world)
     = 1"
proof -
  have m: "multiple_last_results self limit w
     = (case format_int (int_max_str_digits w) limit of
          Inl e \<Rightarrow> (Inl e, w)
        | Inr limit_text \<Rightarrow>
            plain_get
              (lit ''https://api.acrcloud.com/v1/monitor-streams/'' @ stream_id self
          @ lit ''/results?access_key='' @ monitor.access_key self
               @ lit ''&limit='' @ limit_text) w)"
    by (rule multiple_last_results_run)
  have f: "format_int max_digits (PyInt i)
     = (if 0 < max_digits \<and> max_digits < length (decimal (nat \<bar>i\<bar>)) then Inl ValueError
        else Inr ((if i < 0 then lit ''-'' else []) @ decimal (nat \<bar>i\<bar>)))"
    by (simp add: str_int_def digits_refused_def int_text_def)
  have x: "map rq_url (issued (multiple_last_results example_monitor lim) example_world)
     = (case format_int 4300 lim of
          Inl e \<Rightarrow> []
        | Inr t \<Rightarrow> [lit ''https://api.acrcloud.com/v1/monitor-streams/11396/results?access_key=K2&limit='' @ t])"
    for lim
    by (cases "format_int 4300 lim")
      (simp_all add: issued_def multiple_last_results_run plain_get_def Let_def example_limit
        example_monitor_def ACRCloudStreamMonitor_def lit_def)
  show ?thesis
    apply (intro conjI)
    apply (rule last_results_run)
    apply (rule current_results_run)
    apply (rule m)
    apply (rule f)
    apply simp
    apply (rule decimal_value_decimal)
    apply (rule decimal_digits)
    apply (rule day_results_run)
    apply (rule period_results_run)
    apply (rule issued_plain_get)
    apply (simp add: plain_get_def reply_text_def)
    apply (simp add: x str_int_def accepted_examples int_text_examples lit_append)
    apply (simp add: x str_int_def accepted_examples int_text_examples lit_append)
    apply (simp add: x lit_append)
    apply (simp add: day_results_run issued_plain_get example_monitor_def
        ACRCloudStreamMonitor_def lit_def)
    apply (simp add: current_results_run issued_plain_get example_monitor_def
        ACRCloudStreamMonitor_def lit_def)
    apply (rule boundary_issued)
    done
qed

text \<open>
  C9, as the claim states it, in the example world: with the lone surrogate U+D800 as the
  action, \<open>action_monitor\<close> raises \<open>UnicodeEncodeError\<close> in \<open>_sign\<close> and issues no
  request; with the limit \<open>- (10 ^ 4300)\<close>, \<open>multiple_last_results\<close> raises \<open>ValueError\<close>
  and issues no request.
\<close>

theorem requests_not_issued_for_every_input:
  "issued (action_monitor example_console (lit ''11396'') [0xD800]) example_world = []
   \<and> fst (action_monitor example_console (lit ''11396'') [0xD800] example_world)
     = Inl (UnicodeEncodeError
         (lit ''PUT\<newline>/v1/monitor-streams/11396/'' @ [0xD800]
          @ lit ''\<newline>K1\<newline>1\<newline>1000.0''))
   \<and> issued (multiple_last_results example_monitor (PyInt (- (10 ^ 4300)))) example_world = []
   \<and> fst (multiple_last_results example_monitor (PyInt (- (10 ^ 4300))) example_world)
     = Inl ValueError"
proof -
  have "\<not> encodable [0xD800]"
    by (simp add: encodable_def is_surrogate_def)
  then have n: "\<not> signable example_console
      (lit ''/v1/monitor-streams/'' @ lit ''11396'' @ lit ''/'' @ [0xD800])"
    by (simp add: signable_example_console encodable_append)
  have a: "issued (action_monitor example_console (lit ''11396'') [0xD800]) example_world = []"
    using n by (simp add: issued_def action_monitor_run signed_call_def Let_def)
  have b: "fst (action_monitor example_console (lit ''11396'') [0xD800] example_world)
     = Inl (UnicodeEncodeError
         (lit ''PUT\<newline>/v1/monitor-streams/11396/'' @ [0xD800]
          @ lit ''\<newline>K1\<newline>1\<newline>1000.0''))"
    using n
    by (simp add: action_monitor_run signed_call_def Let_def canonical_string_def
        example_console_def ACRCloudConsole_def example_world_def)
      (simp add: lit_def)
  have m: "multiple_last_results example_monitor (PyInt (- (10 ^ 4300))) example_world
     = (Inl ValueError, example_world)"
    by (simp only: multiple_last_results_run example_limit format_int_PyInt
        refused_examples if_True sum.case)
  have c: "issued (multiple_last_results example_monitor (PyInt (- (10 ^ 4300)))) example_world
     = []"
    by (simp only: m issued_def snd_conv drop_all order_refl list.size simp_thms)
  have d: "fst (multiple_last_results example_monitor (PyInt (- (10 ^ 4300))) example_world)
     = Inl ValueError"
    by (simp only: m fst_conv)
  from a b c d show ?thesis
    by (intro conjI)
qed

text \<open>
  C9, amended. Nothing is validated locally beyond what signing and formatting need.
  \<open>action_monitor\<close> puts any action text into the path; when the string to sign has a
  UTF-8 encoding it sends its one signed PUT, otherwise \<open>_sign\<close> raises
  \<open>UnicodeEncodeError\<close> and nothing is sent. \<open>multiple_last_results\<close> sends its one GET
  with any integer as the limit, inside 1 to 100 or not, that the interpreter writes in
  decimal; when the integer has more digits than the interpreter allows, \<open>ValueError\<close> is
  raised and nothing is sent. Whatever response the transport gives to a request that is
  sent, of any status code, its body is returned as text, and an exception of the
  transport is passed on as it is.
\<close>

theorem no_local_validation:
  "(let path = lit ''/v1/monitor-streams/'' @ sid @ lit ''/'' @ action;
        cannot_sign =
          Inl (UnicodeEncodeError
                 (canonical_string (lit ''PUT'') path (console.access_key self)
                    (signature_version self) (lit (clock w (reads w))))) in
      action_monitor self sid action w = signed_call self PUT ''PUT'' path (Inr None) w
      \<and> issued (action_monitor self sid action) w
        = (if signable self path then
             [\<lparr>rq_verb = PUT, rq_url = lit ''https://'' @ host self @ path, rq_data = None,
               rq_headers = Some (signed_headers self ''PUT'' path (clock w (reads w))),
               rq_verify = True\<rparr>]
           else [])
      \<and> fst (action_monitor self sid action (w\<lparr>transport := \<lambda>before rq. Inr response\<rparr>))
        = (if signable self path then Inr (Decode (Some (lit ''utf-8'')) (content response))
           else cannot_sign)
      \<and> fst (action_monitor self sid action (w\<lparr>transport := \<lambda>before rq. Inl e\<rparr>))
        = (if signable self path then Inl e else cannot_sign))
   \<and> (let url = lit ''https://api.acrcloud.com/v1/monitor-streams/'' @ stream_id m
                  @ lit ''/results?access_key='' @ monitor.access_key m
                  @ lit ''&limit='' @ int_text i;
          refused = digits_refused (int_max_str_digits w) i in
      multiple_last_results m (PyInt i) w
        = (if refused then (Inl ValueError, w) else plain_get url w)
      \<and> issued (multiple_last_results m (PyInt i)) w
        = (if refused then []
           else [\<lparr>rq_verb = GET, rq_url = url, rq_data = None, rq_headers = None,
                  rq_verify = True\<rparr>])
      \<and> fst (multiple_last_results m (PyInt i) (w\<lparr>transport := \<lambda>before rq. Inr response\<rparr>))
        = (if refused then Inl ValueError
           else Inr (Decode (Some (lit ''utf-8'')) (content response)))
      \<and> fst (multiple_last_results m (PyInt i) (w\<lparr>transport := \<lambda>before rq. Inl e\<rparr>))
        = (if refused then Inl ValueError else Inl e))
   \<and> digits_refused max_digits i
     = (0 < max_digits \<and> max_digits < length (decimal (nat \<bar>i\<bar>)))
   \<and> int_text i = (if i < 0 then lit ''-'' else []) @ decimal (nat \<bar>i\<bar>)
   \<and> decimal_value (decimal n) = n
   \<and> map rq_url
         (issued (action_monitor example_console (lit ''11396'') (lit ''destroy''))
            example_world)
     = [lit ''https://api.acrcloud.com/v1/monitor-streams/11396/destroy'']
   \<and> map rq_url (issued (multiple_last_results example_monitor (PyInt 0)) example_world)
     = [lit ''https://api.acrcloud.com/v1/monitor-streams/11396/results?access_key=K2&limit=0'']
   \<and> map rq_url (issued (multiple_last_results example_monitor (PyInt (- 5))) example_world)
     = [lit ''https://api.acrcloud.com/v1/monitor-streams/11396/results?access_key=K2&limit=-5'']
   \<and> map rq_url (issued (multiple_last_results example_monitor (PyInt 1000)) example_world)
     = [lit ''https://api.acrcloud.com/v1/monitor-streams/11396/results?access_key=K2&limit=1000'']
   \<and> length (issued (multiple_last_results example_monitor (PyInt (10 ^ 4299))) example_world)
     = 1"
proof -
  have x: "map rq_url (issued (multiple_last_results example_monitor (PyInt j)) example_world)
     = (if digits_refused 4300 j then []
        else [lit ''https://api.acrcloud.com/v1/monitor-streams/11396/results?access_key=K2&limit=''
              @ int_text j])" for j
    by (simp add: issued_def multiple_last_results_run str_int_def plain_get_def Let_def
        example_limit example_monitor_def ACRCloudStreamMonitor_def lit_def)
  have s: "signable example_console
      (lit ''/v1/monitor-streams/'' @ lit ''11396'' @ lit ''/'' @ lit ''destroy'')"
    by (simp add: signable_example_console encodable_append encodable_lit)
  have y: "map rq_url
         (issued (action_monitor example_console (lit ''11396'') (lit ''destroy''))
            example_world)
     = [lit ''https://api.acrcloud.com/v1/monitor-streams/11396/destroy'']"
    using s
    by (simp add: issued_def action_monitor_run signed_call_def Let_def example_console_def
        ACRCloudConsole_def lit_def)
  show ?thesis
    unfolding Let_def
    apply (intro conjI)
    apply (rule action_monitor_run)
    apply (simp add: issued_def action_monitor_run signed_call_def Let_def)
    apply (simp add: action_monitor_run signed_call_def Let_def reply_text_def)
    apply (simp add: action_monitor_run signed_call_def Let_def reply_text_def)
    apply (simp add: multiple_last_results_run str_int_def)
    apply (simp add: multiple_last_results_run str_int_def issued_def plain_get_def Let_def)
    apply (simp add: multiple_last_results_run str_int_def plain_get_def Let_def reply_text_def)
    apply (simp add: multiple_last_results_run str_int_def plain_get_def Let_def reply_text_def)
    apply (rule digits_refused_def)
    apply (rule int_text_def)
    apply (rule decimal_value_decimal)
    apply (rule y)
    apply (simp add: x accepted_examples int_text_examples lit_append)
    apply (simp add: x accepted_examples int_text_examples lit_append)
    apply (simp add: x accepted_examples int_text_examples lit_append)
    apply (rule boundary_issued)
    done
qed



end
